theory Spec2Isabelle
  imports Complex_Main "HOL-Library.AList" "HOL-Library.Char_ord" "HOL-Library.List_Lexorder"
    "HOL-Library.Log_Nat"
begin

section \<open>The derivation pipeline of \<open>BlackFlagActor\<close> (src/system/documents/actor.mjs)\<close>

subsection \<open>JavaScript values and containers\<close>

text \<open>
  A property that may be \<open>undefined\<close> is an \<open>option\<close>. A string is truthy when it is
  present and not empty; interpolating \<open>undefined\<close> into a template literal prints
  \<open>undefined\<close>.
\<close>

definition truthy :: "string option \<Rightarrow> bool" where
  "truthy v = (case v of None \<Rightarrow> False | Some s \<Rightarrow> s \<noteq> [])"

definition js_str :: "string option \<Rightarrow> string" where
  "js_str v = (case v of None \<Rightarrow> ''undefined'' | Some s \<Rightarrow> s)"

datatype error = TypeError

text \<open>
  A JavaScript number is a double. An integer up to \<open>2^53\<close> in magnitude is a double
  itself; the result of an integer addition or subtraction is rounded to the nearest
  double, a tie going to the even significand. \<open>to_double n\<close> is that double for the
  exact result \<open>n\<close>: beyond \<open>2^53\<close> the doubles are the multiples of the quantum \<open>q\<close>
  that leaves a significand of 53 bits. (A difference of a number and 10 never leaves
  the range of the finite doubles.)
\<close>

definition to_double :: "int \<Rightarrow> int" where
  "to_double n =
     (let a = \<bar>n\<bar> in
      if a \<le> 2 ^ 53 then n
      else
        let q = 2 ^ nat (bitlen a - 53);
            m = a div q;
            r = a mod q;
            m' = (if 2 * r < q then m
                  else if q < 2 * r then m + 1
                  else if even m then m else m + 1)
        in sgn n * (m' * q))"

text \<open>
  \<open>Math.floor\<close> is exact on every double, and halving a double is exact.
  \<open>Math.round\<close> rounds a half up, as \<open>round\<close> does; the code feeds it the quotient
  of an integer below \<open>2^18\<close> by 1000, where the double quotient rounds as the exact one
  does.
\<close>

definition Math_floor :: "real \<Rightarrow> int" where
  "Math_floor x = \<lfloor>x\<rfloor>"

definition Math_round :: "real \<Rightarrow> int" where
  "Math_round x = \<lfloor>x + 1 / 2\<rfloor>"

text \<open>
  A \<open>Set\<close> is the list of its members in insertion order. Membership compares by
  identity (SameValueZero): \<open>ident\<close> gives what is compared, the reference of an object
  or the value of a primitive. \<open>Array.from\<close> of the set is the list itself.
\<close>

definition Set_add :: "('a \<Rightarrow> 'i) \<Rightarrow> 'a \<Rightarrow> 'a list \<Rightarrow> 'a list" where
  "Set_add ident x s = (if ident x \<in> set (map ident s) then s else s @ [x])"

definition new_Set :: "('a \<Rightarrow> 'i) \<Rightarrow> 'a list \<Rightarrow> 'a list" where
  "new_Set ident xs = fold (Set_add ident) xs []"

text \<open>
  \<open>a.localeCompare(b)\<close> orders strings as the locale's collation does: by comparing
  their collation keys, sequences of weights compared lexicographically. The locale is a
  parameter, the function \<open>collate\<close> from a string to its key. \<open>Array.prototype.sort\<close>
  is stable, so sorting by a string field is \<open>sort_key\<close> on the key of that field.
  \<open>code_units\<close> is the collation that compares character codes, used on example inputs
  whose order is the same in every locale.
\<close>

type_synonym collation = "string \<Rightarrow> nat list"

definition code_units :: collation where
  "code_units s = map of_char s"

subsection \<open>Data model\<close>

record ability =
  ability_value :: int
  ability_mod :: int

text \<open>
  A Rule Catalog table (\<open>CONFIG.SYSTEM.PROFICIENCY_TYPES\<close> and the like) is an object
  from type keys to entries with a \<open>label\<close>: the list of its properties in
  \<open>Object.keys\<close> order, each key with its entry's label. The tables are not part of
  this file of the repository, so they are parameters (fields of \<open>config\<close> below).
\<close>

type_synonym catalog = "(string \<times> string) list"

text \<open>The innate grants of a trait, one list of type keys per category.\<close>

record innate =
  innate_proficiencies :: "string list"
  innate_resistances :: "string list"
  innate_languages :: "string list"
  innate_saveAdvantages :: "string list"

text \<open>
  The character builder JSON of a trait: \<open>{ mode, options: { key: { amount, category,
  values, valuesType, label } } }\<close>. \<open>bi_options\<close> is \<open>None\<close> when the property is
  absent and \<open>Some []\<close> for the empty object; its entries are in \<open>Object.entries\<close>
  order (an object has each key once).
\<close>

record option_cfg =
  opt_amount :: "int option"
  opt_category :: "string option"
  opt_values :: "string list option"
  opt_valuesType :: "string option"
  opt_label :: "string option"

record builderInfo =
  bi_mode :: "string option"
  bi_options :: "(string \<times> option_cfg) list option"

text \<open>
  A trait as it sits in a source document's \<open>system.traits\<close> and, once stamped with
  \<open>source\<close>, \<open>sourceId\<close> and \<open>color\<close>, in \<open>this.system.traits\<close>.
\<close>

record trait =
  trait_id :: "string option"
  trait_name :: string
  trait_source :: "string option"
  trait_sourceId :: "string option"
  trait_color :: "string option"
  trait_innate :: innate
  trait_builderInfo :: "builderInfo option"

text \<open>
  A choice slot; \<open>chosenValues\<close> is a \<open>Set\<close>, kept as the list of its members in
  iteration order, so its \<open>size\<close> is the length of the list.
\<close>

record choice =
  choice_key :: string
  choice_label :: string
  choice_category :: "string option"
  choice_options :: "string list"
  choice_chosenValues :: "string list"
  choice_amount :: int

text \<open>A trait choice: the trait's own fields merged with \<open>choices\<close> and \<open>choicesFulfilled\<close>.\<close>

record traitChoice = trait +
  choices :: "choice list"
  choicesFulfilled :: bool

text \<open>
  A source document (background, heritage, lineage, class, talent). \<open>doc_ref\<close> is the
  identity of the JavaScript object; \<open>doc_id\<close> is \<open>d.id\<close> (the same as \<open>d._id\<close>).
  A \<open>Collection\<close> is a \<open>Map\<close> from id to document: the list of its entries in
  insertion order, where \<open>set\<close> on a key that is present replaces the value where it
  sits (\<open>AList.update\<close>); its \<open>size\<close> is the length and \<open>get\<close> is \<open>map_of\<close>.
\<close>

record document =
  doc_ref :: nat
  doc_id :: string
  doc_name :: string
  doc_type :: string
  doc_color :: "string option"
  doc_traits :: "trait list"

type_synonym collection = "(string \<times> document) list"

text \<open>
  \<open>CONFIG.SYSTEM\<close>: the four Rule Catalog tables, its other tables, and the five
  document caches that \<open>loadForeignDocuments\<close> fills.
\<close>

record config =
  PROFICIENCY_TYPES :: catalog
  DAMAGE_TYPES :: catalog
  LANGUAGE_TYPES :: catalog
  SAVE_TYPES :: catalog
  other_tables :: "(string \<times> catalog) list"
  LINEAGE_DOCUMENTS :: collection
  HERITAGE_DOCUMENTS :: collection
  BACKGROUND_DOCUMENTS :: collection
  TALENT_DOCUMENTS :: collection
  CLASS_DOCUMENTS :: collection

text \<open>
  \<open>CONFIG.SYSTEM[name]\<close>, as the builder reads it for a \<open>valuesType\<close>: one of the four
  tables, another table of the configuration, one of the other properties that
  \<open>actor.mjs\<close> uses on \<open>CONFIG.SYSTEM\<close> (the document caches and \<open>log\<close>: objects that
  are truthy and have no enumerable keys of their own), or nothing.
\<close>

definition SYSTEM_lookup :: "config \<Rightarrow> string \<Rightarrow> catalog option" where
  "SYSTEM_lookup cfg name =
     (if name = ''PROFICIENCY_TYPES'' then Some (PROFICIENCY_TYPES cfg)
      else if name = ''DAMAGE_TYPES'' then Some (DAMAGE_TYPES cfg)
      else if name = ''LANGUAGE_TYPES'' then Some (LANGUAGE_TYPES cfg)
      else if name = ''SAVE_TYPES'' then Some (SAVE_TYPES cfg)
      else if name \<in> set [''LINEAGE_DOCUMENTS'', ''HERITAGE_DOCUMENTS'', ''BACKGROUND_DOCUMENTS'',
                 ''TALENT_DOCUMENTS'', ''CLASS_DOCUMENTS'', ''log''] then Some []
      else map_of (other_tables cfg) name)"

text \<open>
  The Document Provider: \<open>game.collections.get(type)\<close> (the world documents of a type)
  and \<open>game.packs\<close>. A pack has \<open>metadata.type\<close>, an index of entries with \<open>_id\<close> and
  \<open>type\<close>, and \<open>getDocument(id)\<close>, which answers with a document or with nothing.
\<close>

record index_entry =
  index_id :: string
  index_type :: string

record pack =
  pack_type :: string
  pack_index :: "index_entry list"
  pack_documents :: "(string \<times> document) list"

record game =
  game_collections :: "string \<Rightarrow> document list"
  game_packs :: "pack list"

text \<open>
  The stored references \<open>this._source.system\<close> and the derived view \<open>this.system\<close> that
  \<open>prepareForeignDocumentData\<close> and the later steps work on. \<open>traits\<close> and
  \<open>traitChoices\<close> are Sets of objects, each added once when it is created, so they are
  the lists of their members in insertion order.
\<close>

record source_system =
  source_background :: "string option"
  source_heritage :: "string option"
  source_lineage :: "string option"
  source_class :: "string option"

record system =
  backgroundId :: "string option"
  background :: "document option"
  heritageId :: "string option"
  heritage :: "document option"
  lineageId :: "string option"
  lineage :: "document option"
  classId :: "string option"
  class_document :: "document option"
  traits :: "trait list"
  traitChoices :: "traitChoice list"

text \<open>
  What a derivation pass can change outside the character: \<open>CONFIG.SYSTEM\<close> and the
  fetches made through the Document Provider (the ids given to \<open>pack.getDocument\<close>, in
  order).
\<close>

record world =
  CONFIG :: config
  fetches :: "string list"
  system :: system

subsection \<open>\<open>loadForeignDocuments\<close> (lines 27-56)\<close>

text \<open>
  \<open>getForeignDocuments(type, subtype)\<close>. The inner loop (lines 36-39) fetches one
  document per id and pushes it when there is one; the outer loop (lines 33-40) skips the
  packs of another type. Both work on the pair of \<open>docs\<close> and the fetches made so far.
\<close>

definition getDocument :: "pack \<Rightarrow> string \<Rightarrow> document option" where
  "getDocument pack id' = map_of (pack_documents pack) id'"

definition fetch_step :: "pack \<Rightarrow> string \<Rightarrow> document list \<times> string list \<Rightarrow> document list \<times> string list" where
  "fetch_step pack id' st =
     (case getDocument pack id' of
        Some doc \<Rightarrow> (fst st @ [doc], snd st @ [id'])
      | None \<Rightarrow> (fst st, snd st @ [id']))"

definition pack_step ::
  "string \<Rightarrow> string \<Rightarrow> pack \<Rightarrow> document list \<times> string list \<Rightarrow> document list \<times> string list" where
  "pack_step type' subtype pack st =
     (if pack_type pack \<noteq> type' then st
      else
        let ids = map index_id (filter (\<lambda>d. index_type d = subtype) (pack_index pack))
        in fold (fetch_step pack) ids st)"

text \<open>
  Lines 43-48: the documents go through a \<open>Set\<close> (of objects, so by reference), are
  sorted by name, and are put into a new \<open>Collection\<close> under their ids, one after the
  other.
\<close>

definition to_collection :: "document list \<Rightarrow> collection" where
  "to_collection docs = fold (\<lambda>d collection. AList.update (doc_id d) d collection) docs []"

definition getForeignDocuments ::
  "collation \<Rightarrow> game \<Rightarrow> string \<Rightarrow> string \<Rightarrow> string list \<Rightarrow> collection \<times> string list" where
  "getForeignDocuments collate g type' subtype fetched =
     (let docs = filter (\<lambda>d. doc_type d = subtype) (game_collections g type');
          st = fold (pack_step type' subtype) (game_packs g) (docs, fetched);
          docs = sort_key (\<lambda>d. collate (doc_name d)) (new_Set doc_ref (fst st))
      in (to_collection docs, snd st))"

text \<open>Lines 51-55: the five caches are loaded one after the other.\<close>

definition loadForeignDocuments :: "collation \<Rightarrow> game \<Rightarrow> world \<Rightarrow> world" where
  "loadForeignDocuments collate g w =
     (let r1 = getForeignDocuments collate g ''Item'' ''lineage'' (fetches w);
          r2 = getForeignDocuments collate g ''Item'' ''heritage'' (snd r1);
          r3 = getForeignDocuments collate g ''Item'' ''background'' (snd r2);
          r4 = getForeignDocuments collate g ''Item'' ''talent'' (snd r3);
          r5 = getForeignDocuments collate g ''Item'' ''class'' (snd r4)
      in w\<lparr>CONFIG := (CONFIG w)\<lparr>LINEAGE_DOCUMENTS := fst r1,
                                  HERITAGE_DOCUMENTS := fst r2,
                                  BACKGROUND_DOCUMENTS := fst r3,
                                  TALENT_DOCUMENTS := fst r4,
                                  CLASS_DOCUMENTS := fst r5\<rparr>,
           fetches := snd r5\<rparr>)"

subsection \<open>\<open>prepareAbilityScoreMods\<close> (lines 72-93)\<close>

text \<open>
  \<open>for (let [a, abl] of Object.entries(this.system.abilities))
       this.system.abilities[a] = { value: abl, mod: Math.floor((abl - 10) / 2) }\<close>:
  every key keeps its place and gets the pair. A raw score is an integer-valued number;
  the subtraction \<open>abl - 10\<close> is rounded to a double, the halving and the floor are
  exact.
\<close>

definition ability_of :: "int \<Rightarrow> ability" where
  "ability_of abl =
     \<lparr>ability_value = abl,
      ability_mod = Math_floor (of_int (to_double (abl - 10)) / 2)\<rparr>"

definition prepareAbilityScoreMods :: "(string \<times> int) list \<Rightarrow> (string \<times> ability) list" where
  "prepareAbilityScoreMods abilities = map (\<lambda>(a, abl). (a, ability_of abl)) abilities"

subsection \<open>\<open>prepareForeignDocumentData\<close> (lines 97-154)\<close>

text \<open>\<open>collection.get(id)\<close>, where the stored id may be undefined.\<close>

definition collection_get :: "collection \<Rightarrow> string option \<Rightarrow> document option" where
  "collection_get c i = (case i of None \<Rightarrow> None | Some k \<Rightarrow> map_of c k)"

text \<open>
  Lines 113-139: every trait of a resolved document is duplicated and stamped with the
  document's name, id and color, then added to \<open>this.system.traits\<close>.
\<close>

definition stamp :: "document \<Rightarrow> trait \<Rightarrow> trait" where
  "stamp d trait =
     trait\<lparr>trait_source := Some (doc_name d),
           trait_sourceId := Some (doc_id d),
           trait_color := doc_color d\<rparr>"

definition document_traits :: "document option \<Rightarrow> trait list" where
  "document_traits d = (case d of None \<Rightarrow> [] | Some doc \<Rightarrow> map (stamp doc) (doc_traits doc))"

text \<open>
  Lines 142-150: a trait with an id and no trait choice of that id gets one, the copy of
  the trait merged with \<open>{choices: [], choicesFulfilled: false}\<close>.
\<close>

definition new_traitChoice :: "trait \<Rightarrow> traitChoice" where
  "new_traitChoice trait =
     \<lparr>trait_id = trait_id trait, trait_name = trait_name trait,
      trait_source = trait_source trait, trait_sourceId = trait_sourceId trait,
      trait_color = trait_color trait, trait_innate = trait_innate trait,
      trait_builderInfo = trait_builderInfo trait,
      choices = [], choicesFulfilled = False\<rparr>"

definition add_traitChoice :: "trait \<Rightarrow> traitChoice list \<Rightarrow> traitChoice list" where
  "add_traitChoice trait tcs =
     (if \<not> truthy (trait_id trait) then tcs
      else if find (\<lambda>t. trait_id t = trait_id trait) tcs = None
           then tcs @ [new_traitChoice trait]
      else tcs)"

text \<open>Line 153: the trait choices with no trait of their id are filtered out.\<close>

definition reconcileTraitChoices :: "trait list \<Rightarrow> traitChoice list \<Rightarrow> traitChoice list" where
  "reconcileTraitChoices ts tcs =
     filter (\<lambda>t. find (\<lambda>t2. trait_id t2 = trait_id t) ts \<noteq> None)
       (fold add_traitChoice ts tcs)"

definition prepareForeignDocumentData ::
  "collation \<Rightarrow> game \<Rightarrow> source_system \<Rightarrow> world \<Rightarrow> world" where
  "prepareForeignDocumentData collate g src w =
     (let w1 = (if length (BACKGROUND_DOCUMENTS (CONFIG w)) = 0
                then loadForeignDocuments collate g w else w);
          cfg = CONFIG w1;
          bg = collection_get (BACKGROUND_DOCUMENTS cfg) (source_background src);
          he = collection_get (HERITAGE_DOCUMENTS cfg) (source_heritage src);
          li = collection_get (LINEAGE_DOCUMENTS cfg) (source_lineage src);
          cl = collection_get (CLASS_DOCUMENTS cfg) (source_class src);
          ts = document_traits bg @ document_traits he @ document_traits li
      in w1\<lparr>system := (system w1)
             \<lparr>backgroundId := source_background src, background := bg,
              heritageId := source_heritage src, heritage := he,
              lineageId := source_lineage src, lineage := li,
              classId := source_class src, class_document := cl,
              traits := ts,
              traitChoices := reconcileTraitChoices ts (traitChoices (system w1))\<rparr>\<rparr>)"

subsection \<open>\<open>prepareCharacterBuilderData\<close> (lines 172-237)\<close>

text \<open>
  The candidate values of an option (lines 191-198): \<open>option.values ?? []\<close>, and when a
  \<open>valuesType\<close> is given and the values are empty, the keys of that table; \<open>None\<close> is the
  \<open>continue\<close> of line 196 (no such table).
\<close>

definition option_values :: "config \<Rightarrow> option_cfg \<Rightarrow> string list option" where
  "option_values cfg option =
     (let values = (case opt_values option of None \<Rightarrow> [] | Some vs \<Rightarrow> vs) in
      if truthy (opt_valuesType option) \<and> length values = 0 then
        (case SYSTEM_lookup cfg (js_str (opt_valuesType option)) of
           None \<Rightarrow> None
         | Some category \<Rightarrow> Some (values @ map fst category))
      else Some values)"

definition option_amount :: "option_cfg \<Rightarrow> int" where
  "option_amount option = (case opt_amount option of None \<Rightarrow> 1 | Some a \<Rightarrow> a)"

definition option_label :: "string \<Rightarrow> option_cfg \<Rightarrow> string" where
  "option_label key option = (case opt_label option of None \<Rightarrow> key | Some l \<Rightarrow> l)"

text \<open>\<open>xs.find(P)\<close> is \<open>find P xs\<close>; the object found is then changed where it sits.\<close>

fun update_first :: "('a \<Rightarrow> bool) \<Rightarrow> ('a \<Rightarrow> 'a) \<Rightarrow> 'a list \<Rightarrow> 'a list" where
  "update_first P f [] = []"
| "update_first P f (x # xs) = (if P x then f x # xs else x # update_first P f xs)"

text \<open>
  One turn of the loop over \<open>Object.entries(trait.builderInfo.options)\<close> (lines 187-219),
  on the pair of \<open>trait.choices\<close> and \<open>choicesMade\<close>.
\<close>

definition option_step ::
  "config \<Rightarrow> string \<times> option_cfg \<Rightarrow> choice list \<times> nat \<Rightarrow> choice list \<times> nat" where
  "option_step cfg entry st =
     (let key = fst entry; option = snd entry; cs = fst st; choicesMade = snd st;
          amount = option_amount option in
      case option_values cfg option of
        None \<Rightarrow> (cs, choicesMade)
      | Some values \<Rightarrow>
          (case find (\<lambda>c. choice_key c = key) cs of
             Some currentChoice \<Rightarrow>
               (update_first (\<lambda>c. choice_key c = key)
                  (\<lambda>c. c\<lparr>choice_category := opt_category option,
                          choice_label := option_label key option,
                          choice_options := values,
                          choice_amount := amount\<rparr>) cs,
                if int (length (choice_chosenValues currentChoice)) = amount
                then choicesMade + 1 else choicesMade)
           | None \<Rightarrow>
               (cs @ [\<lparr>choice_key = key,
                        choice_label = option_label key option,
                        choice_category = opt_category option,
                        choice_options = values,
                        choice_chosenValues = [],
                        choice_amount = amount\<rparr>],
                choicesMade)))"

text \<open>
  The body of the loop over \<open>this.system.traitChoices\<close> (lines 176-235). Line 176 turns an
  empty or missing \<open>choices\<close> into \<open>[]\<close>, which the list already is. The \<open>switch\<close> has
  the three cases \<open>ALL\<close>, \<open>ANY\<close> and \<open>CHOOSE_ONE\<close> and no default.
\<close>

definition run_options ::
  "config \<Rightarrow> (string \<times> option_cfg) list \<Rightarrow> choice list \<Rightarrow> choice list \<times> nat" where
  "run_options cfg options cs = fold (option_step cfg) options (cs, 0)"

definition builder_mode :: "builderInfo \<Rightarrow> string" where
  "builder_mode b = (if truthy (bi_mode b) then js_str (bi_mode b) else ''all'')"

definition prepareTraitChoice :: "config \<Rightarrow> traitChoice \<Rightarrow> traitChoice" where
  "prepareTraitChoice cfg trait =
     (case trait_builderInfo trait of
        None \<Rightarrow> trait\<lparr>choicesFulfilled := True\<rparr>
      | Some b \<Rightarrow>
          (case bi_options b of
             None \<Rightarrow> trait\<lparr>choicesFulfilled := True\<rparr>
           | Some options \<Rightarrow>
               (let mode = builder_mode b;
                    st = run_options cfg options (choices trait);
                    choicesMade = snd st;
                    trait1 = trait\<lparr>trait_builderInfo := Some (b\<lparr>bi_mode := Some mode\<rparr>),
                                   choices := fst st\<rparr>
                in if mode = ''ALL'' then
                     trait1\<lparr>choicesFulfilled := (choicesMade = length options)\<rparr>
                   else if mode = ''ANY'' then
                     trait1\<lparr>choicesFulfilled := (choicesMade > 0)\<rparr>
                   else if mode = ''CHOOSE_ONE'' then
                     trait1\<lparr>choicesFulfilled := (choicesMade = 1)\<rparr>
                   else trait1)))"

definition prepareCharacterBuilderData :: "config \<Rightarrow> traitChoice list \<Rightarrow> traitChoice list" where
  "prepareCharacterBuilderData cfg tcs = map (prepareTraitChoice cfg) tcs"

subsection \<open>\<open>prepareAdvantages\<close> (lines 241-362)\<close>

text \<open>
  A stored (manual) entry is an object read through its \<open>value\<close> property. An advantage
  entry is a fresh object: \<open>adv_ref\<close> is its identity, taken from a counter of the
  objects created so far. Its \<open>value\<close> is the stored entry (manual tier) or a type key
  (innate and choice tiers); \<open>adv_sourceId\<close> and \<open>adv_style\<close> are \<open>None\<close> when the
  property is not set. A member of an advantage set is an entry or \<open>undefined\<close>
  (\<open>None\<close>), compared by \<open>adv_ident\<close>.
\<close>

record manual =
  manual_value :: "string option"

datatype adv_value = Key string | Stored manual

record advantage =
  adv_ref :: nat
  adv_source :: string
  adv_sourceType :: string
  adv_sourceId :: "string option"
  adv_value :: adv_value
  adv_label :: string
  adv_style :: "string option"

definition adv_ident :: "advantage option \<Rightarrow> nat option" where
  "adv_ident x = map_option adv_ref x"

record 'p advantages =
  proficiencies :: "'p list"
  resistances :: "'p list"
  languages :: "'p list"
  saveAdvantages :: "'p list"

text \<open>The object counter and the lines written by \<open>CONFIG.SYSTEM.log\<close>.\<close>

record env =
  next_ref :: nat
  log_lines :: "string list"

text \<open>Loops and \<open>map\<close> calls whose body may throw stop at the first exception.\<close>

fun fold_err :: "('a \<Rightarrow> 's \<Rightarrow> error + 's) \<Rightarrow> 'a list \<Rightarrow> 's \<Rightarrow> error + 's" where
  "fold_err f [] s = Inr s"
| "fold_err f (x # xs) s = (case f x s of Inl e \<Rightarrow> Inl e | Inr s' \<Rightarrow> fold_err f xs s')"

fun map_err :: "('a \<Rightarrow> 'e \<Rightarrow> error + 'b \<times> 'e) \<Rightarrow> 'a list \<Rightarrow> 'e \<Rightarrow> error + 'b list \<times> 'e" where
  "map_err f [] e = Inr ([], e)"
| "map_err f (x # xs) e =
     (case f x e of
        Inl err \<Rightarrow> Inl err
      | Inr r \<Rightarrow>
          (case map_err f xs (snd r) of
             Inl err \<Rightarrow> Inl err
           | Inr rs \<Rightarrow> Inr (fst r # fst rs, snd rs)))"

text \<open>
  \<open>mapManualData\<close> (lines 244-251): \<open>types[value.value].label\<close> throws when the table
  has no such key.
\<close>

definition mapManualData :: "catalog \<Rightarrow> manual \<Rightarrow> env \<Rightarrow> error + advantage option \<times> env" where
  "mapManualData types v e =
     (case map_of types (js_str (manual_value v)) of
        None \<Rightarrow> Inl TypeError
      | Some label \<Rightarrow>
          Inr (Some \<lparr>adv_ref = next_ref e, adv_source = ''Manual'', adv_sourceType = ''manual'',
                     adv_sourceId = None, adv_value = Stored v, adv_label = label,
                     adv_style = None\<rparr>,
               e\<lparr>next_ref := next_ref e + 1\<rparr>))"

text \<open>\<open>set.map(f)\<close> (lines 252-255): a new \<open>Set\<close> of the results.\<close>

definition map_manual ::
  "catalog \<Rightarrow> manual list \<Rightarrow> env \<Rightarrow> error + advantage option list \<times> env" where
  "map_manual types vs e =
     (case map_err (mapManualData types) vs e of
        Inl err \<Rightarrow> Inl err
      | Inr r \<Rightarrow> Inr (new_Set adv_ident (fst r), snd r))"

text \<open>
  \<open>buildStyleString\<close> (lines 257-270). \<open>color.match(/\\w\\w/g)\<close> lists the pairs of
  word characters from left to right without overlap, and is \<open>null\<close> when there is none
  (\<open>match_ww\<close> gives \<open>[]\<close>, and \<open>.map\<close> on it throws). \<open>parseInt(c, 16)\<close> skips a
  leading \<open>0x\<close> and reads the hexadecimal digits at the front; it is \<open>NaN\<close> (\<open>None\<close>) when
  there is none. A missing \<open>rgb[i]\<close> or a \<open>NaN\<close> makes the brightness \<open>NaN\<close>, and
  \<open>NaN > 125\<close> is false.
\<close>

definition is_word :: "char \<Rightarrow> bool" where
  "is_word c =
     (let n = (of_char c :: nat)
      in (48 \<le> n \<and> n \<le> 57) \<or> (65 \<le> n \<and> n \<le> 90) \<or> (97 \<le> n \<and> n \<le> 122) \<or> n = 95)"

fun match_ww :: "string \<Rightarrow> string list" where
  "match_ww (a # b # cs) =
     (if is_word a \<and> is_word b then [a, b] # match_ww cs else match_ww (b # cs))"
| "match_ww cs = []"

definition hex_value :: "char \<Rightarrow> int option" where
  "hex_value c =
     (let n = (of_char c :: nat)
      in if 48 \<le> n \<and> n \<le> 57 then Some (int n - 48)
         else if 65 \<le> n \<and> n \<le> 70 then Some (int n - 55)
         else if 97 \<le> n \<and> n \<le> 102 then Some (int n - 87)
         else None)"

definition strip_0x :: "string \<Rightarrow> string" where
  "strip_0x s =
     (case s of
        a # b # rest \<Rightarrow>
          if a = CHR ''0'' \<and> (b = CHR ''x'' \<or> b = CHR ''X'') then rest else s
      | _ \<Rightarrow> s)"

definition parseInt16 :: "string \<Rightarrow> int option" where
  "parseInt16 s =
     (let digits = List.map_filter hex_value (takeWhile (\<lambda>c. hex_value c \<noteq> None) (strip_0x s))
      in if digits = [] then None else Some (foldl (\<lambda>n d. 16 * n + d) 0 digits))"

definition rgb_at :: "int option list \<Rightarrow> nat \<Rightarrow> int option" where
  "rgb_at rgb i = (if i < length rgb then rgb ! i else None)"

definition brightness :: "int option list \<Rightarrow> int option" where
  "brightness rgb =
     (case rgb_at rgb 0 of
        None \<Rightarrow> None
      | Some r \<Rightarrow>
          (case rgb_at rgb 1 of
             None \<Rightarrow> None
           | Some g \<Rightarrow>
               (case rgb_at rgb 2 of
                  None \<Rightarrow> None
                | Some b \<Rightarrow>
                    Some (Math_round (of_int ((r * 299) + (g * 587) + (b * 114)) / 1000)))))"

definition font_color :: "int option \<Rightarrow> string" where
  "font_color br = (case br of None \<Rightarrow> ''white'' | Some n \<Rightarrow> if n > 125 then ''black'' else ''white'')"

definition buildStyleString :: "'a trait_scheme \<Rightarrow> advantage \<Rightarrow> error + advantage" where
  "buildStyleString trait result =
     (if truthy (trait_color trait) then
        let color = js_str (trait_color trait);
            style = ''background-color: '' @ color @ '';''
        in (case match_ww color of
              [] \<Rightarrow> Inl TypeError
            | m # ms \<Rightarrow>
                let rgb = map parseInt16 (m # ms)
                in Inr (result\<lparr>adv_style :=
                     Some (style @ ''color: '' @ font_color (brightness rgb) @ '';'')\<rparr>))
      else Inr (result\<lparr>adv_style := Some ''''\<rparr>))"

text \<open>
  \<open>mapInnate\<close> (lines 273-287): for an unknown key a line is logged and the function
  returns \<open>undefined\<close>; otherwise it returns the new entry.
\<close>

definition unknown_type :: "'a trait_scheme \<Rightarrow> string \<Rightarrow> string" where
  "unknown_type trait v =
     ''Unknown type '' @ v @ '' in '' @ js_str (trait_source trait) @ '' ('' @ trait_name trait @ '')''"

definition trait_entry :: "'a trait_scheme \<Rightarrow> string \<Rightarrow> string \<Rightarrow> string \<Rightarrow> nat \<Rightarrow> advantage" where
  "trait_entry trait sourceType v label r =
     \<lparr>adv_ref = r,
      adv_source = js_str (trait_source trait) @ '' ('' @ trait_name trait @ '')'',
      adv_sourceType = sourceType, adv_sourceId = trait_sourceId trait,
      adv_value = Key v, adv_label = label, adv_style = None\<rparr>"

definition mapInnate ::
  "'a trait_scheme \<Rightarrow> catalog \<Rightarrow> string \<Rightarrow> env \<Rightarrow> error + advantage option \<times> env" where
  "mapInnate trait types innate' e =
     (case map_of types innate' of
        None \<Rightarrow> Inr (None, e\<lparr>log_lines := log_lines e @ [unknown_type trait innate']\<rparr>)
      | Some label \<Rightarrow>
          (case buildStyleString trait (trait_entry trait ''innate'' innate' label (next_ref e)) of
             Inl err \<Rightarrow> Inl err
           | Inr result \<Rightarrow> Inr (Some result, e\<lparr>next_ref := next_ref e + 1\<rparr>)))"

text \<open>
  One of the four statements of the loop over the traits (lines 289-303):
  \<open>values.map(v => mapInnate(trait, types, v)).forEach(v => set.add(v))\<close>. The whole
  array is mapped first; then every element of it, \<open>undefined\<close> included, is added.
\<close>

definition add_innate ::
  "'a trait_scheme \<Rightarrow> catalog \<Rightarrow> string list \<Rightarrow> advantage option list \<times> env
     \<Rightarrow> error + advantage option list \<times> env" where
  "add_innate trait types vs st =
     (case map_err (mapInnate trait types) vs (snd st) of
        Inl err \<Rightarrow> Inl err
      | Inr r \<Rightarrow> Inr (fold (Set_add adv_ident) (fst r) (fst st), snd r))"

text \<open>
  \<open>reduceTraitChoice\<close> (lines 307-325), on the array \<open>advantages\<close> and the environment:
  first one chosen value, then one choice.
\<close>

definition chosen_step ::
  "config \<Rightarrow> 'a trait_scheme \<Rightarrow> string \<Rightarrow> string \<Rightarrow> advantage option list \<times> env
     \<Rightarrow> error + advantage option list \<times> env" where
  "chosen_step cfg trait category v st =
     (case SYSTEM_lookup cfg category of
        None \<Rightarrow> Inl TypeError
      | Some types \<Rightarrow>
          (case map_of types v of
             None \<Rightarrow>
               Inr (fst st, (snd st)\<lparr>log_lines := log_lines (snd st) @ [unknown_type trait v]\<rparr>)
           | Some label \<Rightarrow>
               (case buildStyleString trait
                       (trait_entry trait ''choice'' v label (next_ref (snd st))) of
                  Inl err \<Rightarrow> Inl err
                | Inr result \<Rightarrow>
                    Inr (fst st @ [Some result],
                         (snd st)\<lparr>next_ref := next_ref (snd st) + 1\<rparr>))))"

definition reduceTraitChoice ::
  "config \<Rightarrow> 'a trait_scheme \<Rightarrow> string \<Rightarrow> choice \<Rightarrow> advantage option list \<times> env
     \<Rightarrow> error + advantage option list \<times> env" where
  "reduceTraitChoice cfg trait category c st =
     (if choice_category c \<noteq> Some category then Inr st
      else fold_err (chosen_step cfg trait category) (choice_chosenValues c) st)"

text \<open>
  One of the four statements of the loop over the trait choices (lines 327-341):
  \<open>trait.choices.reduce(..., []).forEach(v => set.add(v))\<close>.
\<close>

definition add_chosen ::
  "config \<Rightarrow> traitChoice \<Rightarrow> string \<Rightarrow> advantage option list \<times> env
     \<Rightarrow> error + advantage option list \<times> env" where
  "add_chosen cfg trait category st =
     (case fold_err (reduceTraitChoice cfg trait category) (choices trait) ([], snd st) of
        Inl err \<Rightarrow> Inl err
      | Inr r \<Rightarrow> Inr (fold (Set_add adv_ident) (fst r) (fst st), snd r))"

text \<open>
  \<open>Array.prototype.sort\<close> with the comparator \<open>a.label.localeCompare(b.label)\<close>: the
  sort is stable, never calls the comparator on \<open>undefined\<close>, and puts the \<open>undefined\<close>
  elements last. Lines 345-360 sort the members of each set and make a new \<open>Set\<close> of the
  sorted array.
\<close>

definition defined :: "'a option list \<Rightarrow> 'a list" where
  "defined xs = List.map_filter (\<lambda>x. x) xs"

definition sort_by_label :: "collation \<Rightarrow> advantage option list \<Rightarrow> advantage option list" where
  "sort_by_label collate xs =
     map Some (sort_key (\<lambda>a. collate (adv_label a)) (defined xs)) @ filter (\<lambda>x. x = None) xs"

definition sorted_Set :: "collation \<Rightarrow> advantage option list \<Rightarrow> advantage option list" where
  "sorted_Set collate xs = new_Set adv_ident (sort_by_label collate xs)"

text \<open>
  The state of \<open>prepareAdvantages\<close>: the four sets and the environment. Each step works
  on one set; \<open>on_proficiencies\<close> and the like run it there.
\<close>

record adv_state =
  sets :: "advantage option advantages"
  environment :: env

definition on_proficiencies ::
  "(advantage option list \<times> env \<Rightarrow> error + advantage option list \<times> env) \<Rightarrow> adv_state
     \<Rightarrow> error + adv_state" where
  "on_proficiencies f st =
     (case f (proficiencies (sets st), environment st) of
        Inl err \<Rightarrow> Inl err
      | Inr r \<Rightarrow> Inr \<lparr>sets = (sets st)\<lparr>proficiencies := fst r\<rparr>, environment = snd r\<rparr>)"

definition on_resistances ::
  "(advantage option list \<times> env \<Rightarrow> error + advantage option list \<times> env) \<Rightarrow> adv_state
     \<Rightarrow> error + adv_state" where
  "on_resistances f st =
     (case f (resistances (sets st), environment st) of
        Inl err \<Rightarrow> Inl err
      | Inr r \<Rightarrow> Inr \<lparr>sets = (sets st)\<lparr>resistances := fst r\<rparr>, environment = snd r\<rparr>)"

definition on_languages ::
  "(advantage option list \<times> env \<Rightarrow> error + advantage option list \<times> env) \<Rightarrow> adv_state
     \<Rightarrow> error + adv_state" where
  "on_languages f st =
     (case f (languages (sets st), environment st) of
        Inl err \<Rightarrow> Inl err
      | Inr r \<Rightarrow> Inr \<lparr>sets = (sets st)\<lparr>languages := fst r\<rparr>, environment = snd r\<rparr>)"

definition on_saveAdvantages ::
  "(advantage option list \<times> env \<Rightarrow> error + advantage option list \<times> env) \<Rightarrow> adv_state
     \<Rightarrow> error + adv_state" where
  "on_saveAdvantages f st =
     (case f (saveAdvantages (sets st), environment st) of
        Inl err \<Rightarrow> Inl err
      | Inr r \<Rightarrow> Inr \<lparr>sets = (sets st)\<lparr>saveAdvantages := fst r\<rparr>, environment = snd r\<rparr>)"

definition and_then :: "error + 'a \<Rightarrow> ('a \<Rightarrow> error + 'b) \<Rightarrow> error + 'b" where
  "and_then r f = (case r of Inl err \<Rightarrow> Inl err | Inr x \<Rightarrow> f x)"

text \<open>Lines 252-255: the stored entries of the four sets are mapped, in this order.\<close>

definition manual_tier :: "config \<Rightarrow> manual advantages \<Rightarrow> env \<Rightarrow> error + adv_state" where
  "manual_tier cfg stored e =
     and_then (map_manual (PROFICIENCY_TYPES cfg) (proficiencies stored) e) (\<lambda>p.
     and_then (map_manual (DAMAGE_TYPES cfg) (resistances stored) (snd p)) (\<lambda>r.
     and_then (map_manual (LANGUAGE_TYPES cfg) (languages stored) (snd r)) (\<lambda>l.
     and_then (map_manual (SAVE_TYPES cfg) (saveAdvantages stored) (snd l)) (\<lambda>s.
       Inr \<lparr>sets = \<lparr>proficiencies = fst p, resistances = fst r, languages = fst l,
                      saveAdvantages = fst s\<rparr>,
            environment = snd s\<rparr>))))"

text \<open>Lines 288-304: the body of the loop over \<open>this.system.traits\<close>.\<close>

definition innate_tier :: "config \<Rightarrow> trait \<Rightarrow> adv_state \<Rightarrow> error + adv_state" where
  "innate_tier cfg trait st =
     and_then (on_proficiencies
        (add_innate trait (PROFICIENCY_TYPES cfg) (innate_proficiencies (trait_innate trait))) st) (\<lambda>st.
     and_then (on_resistances
        (add_innate trait (DAMAGE_TYPES cfg) (innate_resistances (trait_innate trait))) st) (\<lambda>st.
     and_then (on_languages
        (add_innate trait (LANGUAGE_TYPES cfg) (innate_languages (trait_innate trait))) st) (\<lambda>st.
     on_saveAdvantages
        (add_innate trait (SAVE_TYPES cfg) (innate_saveAdvantages (trait_innate trait))) st)))"

text \<open>Lines 326-342: the body of the loop over \<open>this.system.traitChoices\<close>.\<close>

definition choice_tier :: "config \<Rightarrow> traitChoice \<Rightarrow> adv_state \<Rightarrow> error + adv_state" where
  "choice_tier cfg trait st =
     and_then (on_proficiencies (add_chosen cfg trait ''PROFICIENCY_TYPES'') st) (\<lambda>st.
     and_then (on_resistances (add_chosen cfg trait ''DAMAGE_TYPES'') st) (\<lambda>st.
     and_then (on_languages (add_chosen cfg trait ''LANGUAGE_TYPES'') st) (\<lambda>st.
     on_saveAdvantages (add_chosen cfg trait ''SAVE_TYPES'') st)))"

definition sort_sets :: "collation \<Rightarrow> adv_state \<Rightarrow> adv_state" where
  "sort_sets collate st =
     st\<lparr>sets := \<lparr>proficiencies = sorted_Set collate (proficiencies (sets st)),
                   resistances = sorted_Set collate (resistances (sets st)),
                   languages = sorted_Set collate (languages (sets st)),
                   saveAdvantages = sorted_Set collate (saveAdvantages (sets st))\<rparr>\<rparr>"

definition prepareAdvantages ::
  "collation \<Rightarrow> config \<Rightarrow> trait list \<Rightarrow> traitChoice list \<Rightarrow> manual advantages \<Rightarrow> env
     \<Rightarrow> error + adv_state" where
  "prepareAdvantages collate cfg ts tcs stored e =
     and_then (manual_tier cfg stored e) (\<lambda>st.
     and_then (fold_err (innate_tier cfg) ts st) (\<lambda>st.
     and_then (fold_err (choice_tier cfg) tcs st) (\<lambda>st.
       Inr (sort_sets collate st))))"

subsection \<open>\<open>_preparePcDerivedData\<close> (lines 60-68)\<close>

text \<open>
  One derivation pass: the four steps in order. The stored character is its raw ability
  scores, its references and its stored advantage entries; the pass leaves the derived
  abilities, the world (with the derived view of the references, traits and trait
  choices) and the four advantage sets, or the exception that \<open>prepareAdvantages\<close> threw.
\<close>

record actor =
  actor_abilities :: "(string \<times> int) list"
  actor_source :: source_system
  actor_stored :: "manual advantages"

record derived =
  derived_abilities :: "(string \<times> ability) list"
  derived_world :: world
  derived_advantages :: "error + adv_state"

definition preparePcDerivedData ::
  "collation \<Rightarrow> game \<Rightarrow> actor \<Rightarrow> world \<Rightarrow> env \<Rightarrow> derived" where
  "preparePcDerivedData collate g a w e =
     (let abls = prepareAbilityScoreMods (actor_abilities a);
          w1 = prepareForeignDocumentData collate g (actor_source a) w;
          w2 = w1\<lparr>system := (system w1)
                 \<lparr>traitChoices :=
                    prepareCharacterBuilderData (CONFIG w1) (traitChoices (system w1))\<rparr>\<rparr>
      in \<lparr>derived_abilities = abls,
          derived_world = w2,
          derived_advantages =
            prepareAdvantages collate (CONFIG w2) (traits (system w2))
              (traitChoices (system w2)) (actor_stored a) e\<rparr>)"

subsection \<open>Vocabulary of the statements\<close>

text \<open>
  For the made-count: \<open>slot_size cs key\<close> is the size of
  \<open>chosenValues\<close> of the slot that \<open>find\<close> returns for \<open>key\<close> in \<open>cs\<close>, if there is one.
  An option is \<open>counted\<close> against the choices \<open>cs\<close> when it has candidate values, \<open>cs\<close>
  holds a slot for its key, and that slot has exactly \<open>amount\<close> chosen values.
\<close>

definition slot_size :: "choice list \<Rightarrow> string \<Rightarrow> nat option" where
  "slot_size cs key =
     map_option (\<lambda>c. length (choice_chosenValues c)) (find (\<lambda>c. choice_key c = key) cs)"

definition counted :: "config \<Rightarrow> choice list \<Rightarrow> string \<times> option_cfg \<Rightarrow> bool" where
  "counted cfg cs entry =
     (case option_values cfg (snd entry) of
        None \<Rightarrow> False
      | Some values \<Rightarrow>
          (case slot_size cs (fst entry) of
             None \<Rightarrow> False
           | Some n \<Rightarrow> int n = option_amount (snd entry)))"

text \<open>
  The raw scores on which \<open>abl - 10\<close> is computed without rounding: the integers \<open>v\<close>
  that are doubles themselves and whose difference \<open>v - 10\<close> is at most \<open>2^53\<close> in
  magnitude. Every score a character can have (1 to 30 in the rules) is one of them.
\<close>

definition exact_score :: "int \<Rightarrow> bool" where
  "exact_score v = (- (2 ^ 53) + 10 \<le> v \<and> v \<le> 2 ^ 53)"

text \<open>
  The style the specification describes for a trait color whose red, green and blue
  components are \<open>R\<close>, \<open>G\<close> and \<open>B\<close>: the background color, then a foreground that is
  black when the rounded brightness is above 125 and white otherwise.
\<close>

definition contrast_style :: "string \<Rightarrow> int \<Rightarrow> int \<Rightarrow> int \<Rightarrow> string" where
  "contrast_style color R G B =
     ''background-color: '' @ color @ '';color: '' @
     (if round ((of_int R * 299 + of_int G * 587 + of_int B * 114) / (1000 :: real)) > 125
      then ''black'' else ''white'') @ '';''"

text \<open>The fields of an entry that structural equality compares.\<close>

definition structural :: "advantage \<Rightarrow> string \<times> string \<times> adv_value \<times> string" where
  "structural a = (adv_source a, adv_sourceType a, adv_value a, adv_label a)"

text \<open>
  What holds of a final advantage set: no member is there twice (members are compared by
  identity), and the entries come in ascending order of the collation keys of their
  labels.
\<close>

definition label_ordered :: "collation \<Rightarrow> advantage option list \<Rightarrow> bool" where
  "label_ordered collate xs =
     (distinct (map adv_ident xs) \<and> sorted (map (\<lambda>a. collate (adv_label a)) (defined xs)))"

subsection \<open>Example inputs\<close>

definition example_config :: config where
  "example_config =
     \<lparr>PROFICIENCY_TYPES = [(''martial'', ''Martial Weapons''), (''simple'', ''Simple Weapons'')],
      DAMAGE_TYPES = [(''fire'', ''Fire''), (''cold'', ''Cold'')],
      LANGUAGE_TYPES = [(''common'', ''Common''), (''elvish'', ''Elvish'')],
      SAVE_TYPES = [(''poison'', ''Poison'')],
      other_tables = [],
      LINEAGE_DOCUMENTS = [], HERITAGE_DOCUMENTS = [], BACKGROUND_DOCUMENTS = [],
      TALENT_DOCUMENTS = [], CLASS_DOCUMENTS = []\<rparr>"

definition example_innate :: innate where
  "example_innate =
     \<lparr>innate_proficiencies = [], innate_resistances = [], innate_languages = [],
      innate_saveAdvantages = []\<rparr>"

definition language_option :: option_cfg where
  "language_option =
     \<lparr>opt_amount = None, opt_category = Some ''LANGUAGE_TYPES'', opt_values = None,
      opt_valuesType = Some ''LANGUAGE_TYPES'', opt_label = None\<rparr>"

definition language_slot :: "string list \<Rightarrow> choice" where
  "language_slot chosen =
     \<lparr>choice_key = ''additionalLanguage'', choice_label = ''additionalLanguage'',
      choice_category = Some ''LANGUAGE_TYPES'', choice_options = [''common'', ''elvish''],
      choice_chosenValues = chosen, choice_amount = 1\<rparr>"

text \<open>
  A trait choice of the trait \<open>Polyglot\<close> with the given builder configuration, slots and
  prior fulfilment flag.
\<close>

definition example_choice :: "builderInfo option \<Rightarrow> choice list \<Rightarrow> bool \<Rightarrow> traitChoice" where
  "example_choice b cs fulfilled =
     \<lparr>trait_id = Some ''t1'', trait_name = ''Polyglot'', trait_source = Some ''Sailor'',
      trait_sourceId = Some ''bg1'', trait_color = Some ''#202020'',
      trait_innate = example_innate, trait_builderInfo = b,
      choices = cs, choicesFulfilled = fulfilled\<rparr>"

definition language_builder :: "string option \<Rightarrow> builderInfo" where
  "language_builder mode =
     \<lparr>bi_mode = mode, bi_options = Some [(''additionalLanguage'', language_option)]\<rparr>"

definition empty_builder :: "string option \<Rightarrow> builderInfo" where
  "empty_builder mode = \<lparr>bi_mode = mode, bi_options = Some []\<rparr>"

text \<open>
  A world item \<open>Corsair\<close> and a pack that holds a document of the same id under the name
  \<open>Adept\<close> (the item was imported with its id kept and renamed since) and the
  background \<open>Buccaneer\<close>.
\<close>

definition example_document :: "nat \<Rightarrow> string \<Rightarrow> string \<Rightarrow> document" where
  "example_document r i n =
     \<lparr>doc_ref = r, doc_id = i, doc_name = n, doc_type = ''background'',
      doc_color = Some ''#202020'', doc_traits = []\<rparr>"

definition example_pack :: pack where
  "example_pack =
     \<lparr>pack_type = ''Item'',
      pack_index = [\<lparr>index_id = ''idX'', index_type = ''background''\<rparr>,
                    \<lparr>index_id = ''idY'', index_type = ''background''\<rparr>],
      pack_documents = [(''idX'', example_document 1 ''idX'' ''Adept''),
                        (''idY'', example_document 2 ''idY'' ''Buccaneer'')]\<rparr>"

definition example_game :: game where
  "example_game =
     \<lparr>game_collections =
        (\<lambda>t. if t = ''Item'' then [example_document 0 ''idX'' ''Corsair''] else []),
      game_packs = [example_pack]\<rparr>"

text \<open>
  The background \<open>Sailor\<close> with two traits, one of them without an id; a world whose
  five caches are populated and whose character still holds the trait choice of a trait
  it no longer has.
\<close>

definition example_trait :: "string option \<Rightarrow> string \<Rightarrow> innate \<Rightarrow> trait" where
  "example_trait i n inn =
     \<lparr>trait_id = i, trait_name = n, trait_source = None, trait_sourceId = None,
      trait_color = None, trait_innate = inn, trait_builderInfo = None\<rparr>"

definition sailor :: document where
  "sailor =
     \<lparr>doc_ref = 7, doc_id = ''bg1'', doc_name = ''Sailor'', doc_type = ''background'',
      doc_color = Some ''#202020'',
      doc_traits = [example_trait (Some ''t1'') ''Polyglot'' example_innate,
                    example_trait None ''Sea Legs'' example_innate]\<rparr>"

definition warm_config :: config where
  "warm_config =
     example_config\<lparr>LINEAGE_DOCUMENTS := [(''li1'', example_document 3 ''li1'' ''Elf'')],
                    HERITAGE_DOCUMENTS := [(''he1'', example_document 4 ''he1'' ''Islander'')],
                    BACKGROUND_DOCUMENTS := [(''bg1'', sailor)],
                    TALENT_DOCUMENTS := [(''ta1'', example_document 5 ''ta1'' ''Brawler'')],
                    CLASS_DOCUMENTS := [(''cl1'', example_document 6 ''cl1'' ''Fighter'')]\<rparr>"

definition example_source :: source_system where
  "example_source =
     \<lparr>source_background = Some ''bg1'', source_heritage = None,
      source_lineage = Some ''gone'', source_class = None\<rparr>"

definition example_world :: world where
  "example_world =
     \<lparr>CONFIG = warm_config, fetches = [],
      system = \<lparr>backgroundId = None, background = None, heritageId = None, heritage = None,
                lineageId = None, lineage = None, classId = None, class_document = None,
                traits = [],
                traitChoices = [example_choice None [] True\<lparr>trait_id := Some ''old''\<rparr>]\<rparr>\<rparr>"

text \<open>
  The stamped trait \<open>Polyglot\<close> of the background \<open>Sailor\<close> with given innate grants and
  color, a character with nothing stored, and an environment in which no object has
  been created and no line logged.
\<close>

definition polyglot :: "string option \<Rightarrow> innate \<Rightarrow> trait" where
  "polyglot color inn =
     \<lparr>trait_id = Some ''t1'', trait_name = ''Polyglot'', trait_source = Some ''Sailor'',
      trait_sourceId = Some ''bg1'', trait_color = color, trait_innate = inn,
      trait_builderInfo = None\<rparr>"

definition nothing_stored :: "manual advantages" where
  "nothing_stored = \<lparr>proficiencies = [], resistances = [], languages = [], saveAdvantages = []\<rparr>"

definition fresh_env :: env where
  "fresh_env = \<lparr>next_ref = 0, log_lines = []\<rparr>"

definition example_actor :: actor where
  "example_actor =
     \<lparr>actor_abilities = [(''str'', 15), (''dex'', 8)], actor_source = example_source,
      actor_stored = nothing_stored\<rparr>"

section \<open>Properties\<close>

subsection \<open>Sets and collections\<close>

lemma Set_add_distinct:
  "distinct (map ident s) \<Longrightarrow> distinct (map ident (Set_add ident x s))"
  by (simp add: Set_add_def)

lemma Set_add_set: "ident ` set (Set_add ident x s) = insert (ident x) (ident ` set s)"
  by (auto simp: Set_add_def)

lemma Set_add_subset: "set (Set_add ident x s) \<subseteq> insert x (set s)"
  by (auto simp: Set_add_def)

lemma fold_Set_add_distinct:
  "distinct (map ident s) \<Longrightarrow> distinct (map ident (fold (Set_add ident) xs s))"
  by (induction xs arbitrary: s) (simp_all add: Set_add_distinct)

lemma fold_Set_add_subset: "set (fold (Set_add ident) xs s) \<subseteq> set xs \<union> set s"
proof (induction xs arbitrary: s)
  case Nil
  then show ?case by simp
next
  case (Cons x xs)
  from Cons.IH[of "Set_add ident x s"] Set_add_subset[of ident x s]
  show ?case by auto
qed

lemma new_Set_distinct: "distinct (map ident (new_Set ident xs))"
  by (simp add: new_Set_def fold_Set_add_distinct)

lemma new_Set_subset: "set (new_Set ident xs) \<subseteq> set xs"
  using fold_Set_add_subset[of ident xs "[]"] by (simp add: new_Set_def)

lemma fold_Set_add_id:
  "distinct (map ident (s @ xs)) \<Longrightarrow> fold (Set_add ident) xs s = s @ xs"
proof (induction xs arbitrary: s)
  case Nil
  then show ?case by simp
next
  case (Cons x xs)
  from Cons.prems have "Set_add ident x s = s @ [x]"
    by (auto simp: Set_add_def)
  with Cons.IH[of "s @ [x]"] Cons.prems show ?case by simp
qed

lemma new_Set_id: "distinct (map ident xs) \<Longrightarrow> new_Set ident xs = xs"
  using fold_Set_add_id[of ident "[]" xs] by (simp add: new_Set_def)

lemma fold_update_distinct:
  "distinct (map fst c) \<Longrightarrow>
   distinct (map fst (fold (\<lambda>d c. AList.update (doc_id d) d c) docs c))"
  by (induction docs arbitrary: c) (simp_all add: AList.distinct_update)

lemma to_collection_distinct: "distinct (map fst (to_collection docs))"
  by (simp add: to_collection_def fold_update_distinct)

lemma update_fresh: "k \<notin> fst ` set al \<Longrightarrow> AList.update k v al = al @ [(k, v)]"
  by (induction al) auto

lemma fold_update_fresh:
  "distinct (map fst c @ map doc_id docs) \<Longrightarrow>
   fold (\<lambda>d c. AList.update (doc_id d) d c) docs c = c @ map (\<lambda>d. (doc_id d, d)) docs"
proof (induction docs arbitrary: c)
  case Nil
  then show ?case by simp
next
  case (Cons d ds)
  from Cons.prems have "doc_id d \<notin> fst ` set c" by auto
  then have u: "AList.update (doc_id d) d c = c @ [(doc_id d, d)]" by (rule update_fresh)
  from Cons.prems have "distinct (map fst (c @ [(doc_id d, d)]) @ map doc_id ds)" by auto
  from Cons.IH[OF this] u show ?case by simp
qed

lemma to_collection_fresh:
  "distinct (map doc_id docs) \<Longrightarrow> to_collection docs = map (\<lambda>d. (doc_id d, d)) docs"
  using fold_update_fresh[of "[]" docs] by (simp add: to_collection_def)

text \<open>
  The cached collection never holds an id twice, and when the sorted documents have
  distinct ids it lists them in the sorted order.
\<close>

lemma getForeignDocuments_distinct:
  "distinct (map fst (fst (getForeignDocuments collate g type' subtype fetched)))"
  by (simp add: getForeignDocuments_def Let_def to_collection_distinct)

lemma to_collection_sorted:
  assumes "distinct (map doc_id docs)"
  shows "sorted (map (\<lambda>e. collate (doc_name (snd e)))
           (to_collection (sort_key (\<lambda>d. collate (doc_name d)) docs)))"
proof -
  let ?k = "\<lambda>d. collate (doc_name d)"
  have "distinct (map doc_id (sort_key ?k docs))"
    using assms by (simp add: distinct_map)
  then have "to_collection (sort_key ?k docs) = map (\<lambda>d. (doc_id d, d)) (sort_key ?k docs)"
    by (rule to_collection_fresh)
  then show ?thesis
    by (simp add: comp_def)
qed

subsection \<open>Ability modifiers\<close>

lemma to_double_exact: "\<bar>n\<bar> \<le> 2 ^ 53 \<Longrightarrow> to_double n = n"
  by (simp add: to_double_def Let_def)

lemma Math_floor_half:
  assumes "exact_score v"
  shows "Math_floor (of_int (to_double (v - 10)) / 2) = (v - 10) div 2"
proof -
  from assms have "\<bar>v - 10\<bar> \<le> 2 ^ 53"
    by (simp add: exact_score_def abs_le_iff)
  then have "to_double (v - 10) = v - 10"
    by (rule to_double_exact)
  moreover have "\<lfloor>(of_int (v - 10) :: real) / of_int 2\<rfloor> = (v - 10) div 2"
    by (simp only: floor_divide_of_int_eq)
  ultimately show ?thesis
    by (simp add: Math_floor_def)
qed

lemma ability_of_exact:
  "exact_score v \<Longrightarrow>
   ability_of v = \<lparr>ability_value = v, ability_mod = (v - 10) div 2\<rparr>"
  by (simp add: ability_of_def Math_floor_half)

text \<open>
  C4. For every ability key and raw integer score \<open>v\<close> on which the double arithmetic of
  line 90 is exact (from \<open>-2^53 + 10\<close> to \<open>2^53\<close>, far beyond any score of the game),
  the deriver emits, under the same key and at the same place, a pair whose value is \<open>v\<close>
  and whose modifier is the floor of \<open>(v - 10) / 2\<close> (integer division rounding down); 1
  gives -5, 10 and 11 give 0, 12 gives 1 and 20 gives 5. The function is total (it has no
  error result), and in a derivation pass the raw scores decide the derived abilities
  and nothing else.
\<close>

theorem prepareAbilityScoreMods_floor:
  assumes "\<forall>v \<in> snd ` set abilities. exact_score v"
  shows "prepareAbilityScoreMods abilities =
       map (\<lambda>(a, v). (a, \<lparr>ability_value = v, ability_mod = (v - 10) div 2\<rparr>)) abilities
     \<and> map fst (prepareAbilityScoreMods abilities) = map fst abilities
     \<and> ability_mod (ability_of 1) = -5
     \<and> ability_mod (ability_of 10) = 0
     \<and> ability_mod (ability_of 11) = 0
     \<and> ability_mod (ability_of 12) = 1
     \<and> ability_mod (ability_of 20) = 5
     \<and> preparePcDerivedData collate g (actor\<lparr>actor_abilities := abilities\<rparr>) w e =
         (preparePcDerivedData collate g actor w e)
           \<lparr>derived_abilities := prepareAbilityScoreMods abilities\<rparr>"
proof -
  have m: "exact_score v \<Longrightarrow> ability_mod (ability_of v) = (v - 10) div 2" for v
    by (simp add: ability_of_exact)
  have t: "exact_score 1" "exact_score 10" "exact_score 11" "exact_score 12" "exact_score 20"
    by (simp_all add: exact_score_def)
  have p: "preparePcDerivedData collate g (actor\<lparr>actor_abilities := abilities\<rparr>) w e =
       (preparePcDerivedData collate g actor w e)
         \<lparr>derived_abilities := prepareAbilityScoreMods abilities\<rparr>"
    by (simp add: preparePcDerivedData_def Let_def)
  have "prepareAbilityScoreMods abilities =
      map (\<lambda>(a, v). (a, \<lparr>ability_value = v, ability_mod = (v - 10) div 2\<rparr>)) abilities"
    unfolding prepareAbilityScoreMods_def
  proof (rule map_cong[OF refl])
    fix x assume "x \<in> set abilities"
    with assms have "exact_score (snd x)" by simp
    then show "(case x of (a, abl) \<Rightarrow> (a, ability_of abl)) =
        (case x of (a, v) \<Rightarrow> (a, \<lparr>ability_value = v, ability_mod = (v - 10) div 2\<rparr>))"
      by (simp add: split_def ability_of_exact)
  qed
  moreover have "map fst (prepareAbilityScoreMods abilities) = map fst abilities"
    by (simp add: prepareAbilityScoreMods_def split_def comp_def)
  ultimately show ?thesis
    using p by (simp add: m t)
qed

theorem prepareAbilityScoreMods_floor_witness:
  "list_all exact_score (map snd [(''str'', 15), (''dex'', 8)])
   \<and> prepareAbilityScoreMods [(''str'', 15), (''dex'', 8)] =
       [(''str'', \<lparr>ability_value = 15, ability_mod = 2\<rparr>),
        (''dex'', \<lparr>ability_value = 8, ability_mod = - 1\<rparr>)]"
proof -
  have h: "\<forall>v \<in> snd ` set [(''str'', 15), (''dex'', 8 :: int)]. exact_score v"
    by (simp add: exact_score_def)
  from prepareAbilityScoreMods_floor[OF h] h show ?thesis
    by simp
qed

text \<open>
  Beyond that range the subtraction is rounded, and the modifier is the one of the
  rounded difference: at \<open>10^17\<close> the doubles are 16 apart, and at \<open>-2^53 + 9\<close> the
  difference \<open>-2^53 - 1\<close> is halfway between two doubles.
\<close>

lemma ability_mod_rounded:
  "ability_mod (ability_of (10 ^ 17)) = 49999999999999992
   \<and> ability_mod (ability_of (2 ^ 54 + 12)) = 9007199254740992
   \<and> ability_mod (ability_of (- (2 ^ 53) + 9)) = - (2 ^ 52)"
  by code_simp

subsection \<open>Catalog cache\<close>

text \<open>
  C7. A derivation pass that finds the five document caches populated makes no fetch
  through the Document Provider and leaves \<open>CONFIG.SYSTEM\<close>, the caches with it, as it
  was.
\<close>

theorem warm_cache_no_fetch:
  assumes "LINEAGE_DOCUMENTS (CONFIG w) \<noteq> []" and "HERITAGE_DOCUMENTS (CONFIG w) \<noteq> []"
    and "BACKGROUND_DOCUMENTS (CONFIG w) \<noteq> []" and "TALENT_DOCUMENTS (CONFIG w) \<noteq> []"
    and "CLASS_DOCUMENTS (CONFIG w) \<noteq> []"
  shows "fetches (prepareForeignDocumentData collate g src w) = fetches w
       \<and> CONFIG (prepareForeignDocumentData collate g src w) = CONFIG w
       \<and> fetches (derived_world (preparePcDerivedData collate g a w e)) = fetches w
       \<and> CONFIG (derived_world (preparePcDerivedData collate g a w e)) = CONFIG w"
  using assms by (simp add: preparePcDerivedData_def prepareForeignDocumentData_def Let_def)

theorem warm_cache_no_fetch_witness:
  "fetches (prepareForeignDocumentData code_units example_game example_source example_world) = []
   \<and> CONFIG (prepareForeignDocumentData code_units example_game example_source example_world)
       = warm_config
   \<and> fetches (derived_world
        (preparePcDerivedData code_units example_game example_actor example_world fresh_env)) = []
   \<and> CONFIG (derived_world
        (preparePcDerivedData code_units example_game example_actor example_world fresh_env))
       = warm_config"
  using warm_cache_no_fetch[of example_world code_units example_game example_source
      example_actor fresh_env]
  by (simp add: example_world_def warm_config_def)

text \<open>The pass that finds the background cache empty is the one that loads.\<close>

lemma cold_cache_loads:
  "BACKGROUND_DOCUMENTS (CONFIG w) = [] \<Longrightarrow>
   CONFIG (prepareForeignDocumentData collate g src w) = CONFIG (loadForeignDocuments collate g w)
   \<and> fetches (prepareForeignDocumentData collate g src w) = fetches (loadForeignDocuments collate g w)"
  by (simp add: prepareForeignDocumentData_def Let_def)

text \<open>
  C8 (the order of the cached collection). The world holds the background \<open>Corsair\<close>
  and a pack holds a document of the same id named \<open>Adept\<close>, and \<open>Buccaneer\<close>. The two
  documents of one id are two objects, so the \<open>Set\<close> keeps both; sorted by name they are
  \<open>Adept\<close>, \<open>Buccaneer\<close>, \<open>Corsair\<close>; \<open>collection.set\<close> then overwrites \<open>Adept\<close> by
  \<open>Corsair\<close> at the first place. The collection iterates as \<open>Corsair\<close>, \<open>Buccaneer\<close>,
  which is not ascending by name.
\<close>

theorem shared_id_breaks_name_order:
  "getForeignDocuments code_units example_game ''Item'' ''background'' [] =
     ([(''idX'', example_document 0 ''idX'' ''Corsair''),
       (''idY'', example_document 2 ''idY'' ''Buccaneer'')],
      [''idX'', ''idY''])
   \<and> map (\<lambda>entry. doc_name (snd entry))
       (fst (getForeignDocuments code_units example_game ''Item'' ''background'' []))
     = [''Corsair'', ''Buccaneer'']
   \<and> code_units ''Buccaneer'' < code_units ''Corsair''"
  by code_simp

subsection \<open>Trait reconciliation\<close>

lemma system_loadForeignDocuments: "system (loadForeignDocuments collate g w) = system w"
  by (simp add: loadForeignDocuments_def Let_def)

lemma traits_prepareForeignDocumentData:
  "traitChoices (system (prepareForeignDocumentData collate g src w)) =
     reconcileTraitChoices (traits (system (prepareForeignDocumentData collate g src w)))
       (traitChoices (system w))"
  by (simp add: prepareForeignDocumentData_def Let_def system_loadForeignDocuments)

lemma find_id_None: "(find (\<lambda>t. trait_id t = i) xs = None) = (i \<notin> trait_id ` set xs)"
  by (auto simp: find_None_iff)

lemma ids_add_traitChoice:
  "trait_id ` set (add_traitChoice t tcs) =
     trait_id ` set tcs \<union> (if truthy (trait_id t) then {trait_id t} else {})"
  by (auto simp: add_traitChoice_def find_id_None new_traitChoice_def)

lemma ids_fold_add_traitChoice:
  "trait_id ` set (fold add_traitChoice ts tcs) =
     trait_id ` set tcs \<union> {i \<in> trait_id ` set ts. truthy i}"
proof (induction ts arbitrary: tcs)
  case Nil
  then show ?case by simp
next
  case (Cons t ts)
  show ?case
    by (simp only: fold_simps Cons.IH ids_add_traitChoice) auto
qed

lemma set_add_traitChoice:
  "set (add_traitChoice t tcs) \<subseteq> set tcs \<union> (if truthy (trait_id t) then {new_traitChoice t} else {})"
  by (auto simp: add_traitChoice_def)

lemma set_fold_add_traitChoice:
  "set (fold add_traitChoice ts tcs) \<subseteq>
     set tcs \<union> new_traitChoice ` {t \<in> set ts. truthy (trait_id t)}"
proof (induction ts arbitrary: tcs)
  case Nil
  then show ?case by simp
next
  case (Cons t ts)
  have "set (fold add_traitChoice ts (add_traitChoice t tcs)) \<subseteq>
      set (add_traitChoice t tcs) \<union> new_traitChoice ` {t \<in> set ts. truthy (trait_id t)}"
    by (rule Cons.IH)
  with set_add_traitChoice[of t tcs] show ?case
    by (auto split: if_splits)
qed

lemma kept_add_traitChoice: "set tcs \<subseteq> set (add_traitChoice t tcs)"
  by (auto simp: add_traitChoice_def)

lemma kept_fold_add_traitChoice: "set tcs \<subseteq> set (fold add_traitChoice ts tcs)"
proof (induction ts arbitrary: tcs)
  case Nil
  then show ?case by simp
next
  case (Cons t ts)
  from kept_add_traitChoice[of tcs t] Cons.IH[of "add_traitChoice t tcs"]
  show ?case by auto
qed

lemma set_reconcileTraitChoices:
  "set (reconcileTraitChoices ts tcs) =
     {c \<in> set (fold add_traitChoice ts tcs). trait_id c \<in> trait_id ` set ts}"
  by (auto simp: reconcileTraitChoices_def find_id_None)

lemma ids_reconcileTraitChoices:
  assumes "\<forall>c \<in> set tcs. truthy (trait_id c)"
  shows "trait_id ` set (reconcileTraitChoices ts tcs) = {i \<in> trait_id ` set ts. truthy i}"
proof -
  have "trait_id ` set (reconcileTraitChoices ts tcs) =
      trait_id ` set (fold add_traitChoice ts tcs) \<inter> trait_id ` set ts"
    by (auto simp: set_reconcileTraitChoices)
  also have "\<dots> = (trait_id ` set tcs \<union> {i \<in> trait_id ` set ts. truthy i}) \<inter> trait_id ` set ts"
    by (simp only: ids_fold_add_traitChoice)
  also have "\<dots> = {i \<in> trait_id ` set ts. truthy i}"
    using assms by auto
  finally show ?thesis .
qed

lemma fresh_reconcileTraitChoices:
  assumes t: "t \<in> set ts" and id: "truthy (trait_id t)"
    and new: "trait_id t \<notin> trait_id ` set tcs"
  shows "\<exists>t' \<in> set ts. trait_id t' = trait_id t
           \<and> new_traitChoice t' \<in> set (reconcileTraitChoices ts tcs)"
proof -
  from t id have "trait_id t \<in> trait_id ` set (fold add_traitChoice ts tcs)"
    by (simp only: ids_fold_add_traitChoice) auto
  then obtain c where c: "c \<in> set (fold add_traitChoice ts tcs)" and cid: "trait_id c = trait_id t"
    by auto
  with new have "c \<notin> set tcs" by (metis imageI)
  with c set_fold_add_traitChoice[of ts tcs] obtain t' where t': "t' \<in> set ts" and c': "c = new_traitChoice t'"
    by auto
  from c' cid have "trait_id t' = trait_id t" by (simp add: new_traitChoice_def)
  moreover from c cid t have "c \<in> set (reconcileTraitChoices ts tcs)"
    by (simp add: set_reconcileTraitChoices)
  ultimately show ?thesis using t' c' by auto
qed

text \<open>
  C3. After \<open>prepareForeignDocumentData\<close>, the ids of the trait choices are exactly the
  ids of the current traits that have one (\<open>trait.id\<close> is truthy); every such trait with
  no trait choice of its id before gets one with \<open>choices = []\<close> and
  \<open>choicesFulfilled = false\<close>; and a trait choice from before is still there exactly when
  a current trait has its id. The trait choices from before all carry an id: they were
  made by this reconciliation, which only makes them for traits with an id.
\<close>

theorem traitChoices_reconciled:
  assumes inv: "\<forall>c \<in> set (traitChoices (system w)). truthy (trait_id c)"
    and w': "w' = prepareForeignDocumentData collate g src w"
  shows "trait_id ` set (traitChoices (system w')) =
           {i \<in> trait_id ` set (traits (system w')). truthy i}
       \<and> (\<forall>t \<in> set (traits (system w')).
             truthy (trait_id t) \<and> trait_id t \<notin> trait_id ` set (traitChoices (system w)) \<longrightarrow>
             (\<exists>c \<in> set (traitChoices (system w')).
                trait_id c = trait_id t \<and> choices c = [] \<and> \<not> choicesFulfilled c))
       \<and> (\<forall>c \<in> set (traitChoices (system w)).
             (c \<in> set (traitChoices (system w'))) =
             (trait_id c \<in> trait_id ` set (traits (system w'))))"
proof (intro conjI ballI impI)
  let ?ts = "traits (system w')"
  have r: "traitChoices (system w') = reconcileTraitChoices ?ts (traitChoices (system w))"
    unfolding w' by (rule traits_prepareForeignDocumentData)
  show "trait_id ` set (traitChoices (system w')) = {i \<in> trait_id ` set ?ts. truthy i}"
    unfolding r using inv by (rule ids_reconcileTraitChoices)
  {
    fix t
    assume t: "t \<in> set ?ts"
      and h: "truthy (trait_id t) \<and> trait_id t \<notin> trait_id ` set (traitChoices (system w))"
    from fresh_reconcileTraitChoices[OF t, of "traitChoices (system w)"] h
    obtain t' where "trait_id t' = trait_id t"
      and "new_traitChoice t' \<in> set (traitChoices (system w'))"
      unfolding r by auto
    then show "\<exists>c \<in> set (traitChoices (system w')).
        trait_id c = trait_id t \<and> choices c = [] \<and> \<not> choicesFulfilled c"
      by (intro bexI[of _ "new_traitChoice t'"]) (simp_all add: new_traitChoice_def)
  }
  {
    fix c
    assume "c \<in> set (traitChoices (system w))"
    with kept_fold_add_traitChoice[of "traitChoices (system w)" ?ts]
    show "(c \<in> set (traitChoices (system w'))) = (trait_id c \<in> trait_id ` set ?ts)"
      unfolding r by (auto simp: set_reconcileTraitChoices)
  }
qed

theorem traitChoices_reconciled_witness:
  "list_all (\<lambda>c. truthy (trait_id c)) (traitChoices (system example_world))
   \<and> map trait_id (traits (system
        (prepareForeignDocumentData code_units example_game example_source example_world)))
       = [Some ''t1'', None]
   \<and> trait_id ` set (traitChoices (system
        (prepareForeignDocumentData code_units example_game example_source example_world)))
       = {Some ''t1''}"
proof -
  let ?w' = "prepareForeignDocumentData code_units example_game example_source example_world"
  have inv: "list_all (\<lambda>c. truthy (trait_id c)) (traitChoices (system example_world))"
    by code_simp
  then have "\<forall>c \<in> set (traitChoices (system example_world)). truthy (trait_id c)"
    by (simp add: list_all_iff)
  from traitChoices_reconciled[OF this refl, of code_units example_game example_source]
  have ids: "trait_id ` set (traitChoices (system ?w')) =
      {i \<in> trait_id ` set (traits (system ?w')). truthy i}"
    by blast
  have ts: "map trait_id (traits (system ?w')) = [Some ''t1'', None]"
    by code_simp
  have "trait_id ` set (traits (system ?w')) = {Some ''t1'', None}"
    using ts by (metis (no_types) list.set_map list.simps(15) empty_set)
  with ids have "trait_id ` set (traitChoices (system ?w')) = {Some ''t1''}"
    by (auto simp: truthy_def)
  with inv ts show ?thesis by simp
qed

subsection \<open>Choice fulfilment\<close>

lemma slot_size_append:
  "slot_size (cs @ [c]) k =
     (case slot_size cs k of Some n \<Rightarrow> Some n
      | None \<Rightarrow> if choice_key c = k then Some (length (choice_chosenValues c)) else None)"
  by (induction cs) (auto simp: slot_size_def)

lemma slot_size_update_first:
  "(\<And>c. choice_key (f c) = choice_key c) \<Longrightarrow>
   (\<And>c. choice_chosenValues (f c) = choice_chosenValues c) \<Longrightarrow>
   slot_size (update_first (\<lambda>c. choice_key c = k') f cs) k = slot_size cs k"
  by (induction cs) (auto simp: slot_size_def)

lemma option_step_slot_size:
  "k \<noteq> fst entry \<Longrightarrow> slot_size (fst (option_step cfg entry st)) k = slot_size (fst st) k"
  by (auto simp: option_step_def Let_def slot_size_append slot_size_update_first
      split: option.splits)

lemma option_step_count:
  "snd (option_step cfg entry st) = snd st + (if counted cfg (fst st) entry then 1 else 0)"
  by (auto simp: option_step_def Let_def counted_def slot_size_def split: option.splits)

lemma option_step_creates:
  "option_values cfg (snd entry) \<noteq> None \<Longrightarrow> slot_size (fst st) (fst entry) = None \<Longrightarrow>
   slot_size (fst (option_step cfg entry st)) (fst entry) = Some 0"
proof -
  assume v: "option_values cfg (snd entry) \<noteq> None"
    and n: "slot_size (fst st) (fst entry) = None"
  from n have "find (\<lambda>c. choice_key c = fst entry) (fst st) = None"
    by (simp add: slot_size_def)
  with v obtain c where "fst (option_step cfg entry st) = fst st @ [c]"
    and "choice_key c = fst entry" and "choice_chosenValues c = []"
    by (auto simp: option_step_def Let_def)
  with n show ?thesis
    by (simp add: slot_size_append)
qed

lemma fold_option_step_count:
  "distinct (map fst options) \<Longrightarrow>
   snd (fold (option_step cfg) options st) =
     snd st + length (filter (counted cfg (fst st)) options)"
proof (induction options arbitrary: st)
  case Nil
  then show ?case by simp
next
  case (Cons e es)
  have "filter (counted cfg (fst (option_step cfg e st))) es = filter (counted cfg (fst st)) es"
  proof (rule filter_cong[OF refl])
    fix x assume "x \<in> set es"
    with Cons.prems have "fst x \<noteq> fst e" by (auto simp: image_iff)
    then show "counted cfg (fst (option_step cfg e st)) x = counted cfg (fst st) x"
      by (simp add: counted_def option_step_slot_size split: option.splits)
  qed
  with Cons show ?case
    by (simp add: option_step_count)
qed

lemma fold_option_step_other:
  "k \<notin> fst ` set options \<Longrightarrow>
   slot_size (fst (fold (option_step cfg) options st)) k = slot_size (fst st) k"
  by (induction options arbitrary: st) (auto simp: option_step_slot_size)

lemma fold_option_step_creates:
  "distinct (map fst options) \<Longrightarrow> entry \<in> set options \<Longrightarrow>
   option_values cfg (snd entry) \<noteq> None \<Longrightarrow> slot_size (fst st) (fst entry) = None \<Longrightarrow>
   slot_size (fst (fold (option_step cfg) options st)) (fst entry) = Some 0"
proof (induction options arbitrary: st)
  case Nil
  then show ?case by simp
next
  case (Cons e es)
  show ?case
  proof (cases "entry = e")
    case True
    with Cons.prems have "fst entry \<notin> fst ` set es" by simp
    then show ?thesis
      using Cons.prems True by (simp add: fold_option_step_other option_step_creates)
  next
    case False
    with Cons.prems have in_es: "entry \<in> set es" by simp
    with Cons.prems have "fst entry \<noteq> fst e" by (auto simp: image_iff)
    then have "slot_size (fst (option_step cfg e st)) (fst entry) = None"
      using Cons.prems by (simp add: option_step_slot_size)
    with Cons.IH[OF _ in_es] Cons.prems show ?thesis by simp
  qed
qed

lemma run_options_count:
  "distinct (map fst options) \<Longrightarrow>
   snd (run_options cfg options cs) = length (filter (counted cfg cs) options)"
  by (simp add: run_options_def fold_option_step_count)

lemma choices_prepareTraitChoice:
  "trait_builderInfo trait = Some b \<Longrightarrow> bi_options b = Some options \<Longrightarrow>
   choices (prepareTraitChoice cfg trait) = fst (run_options cfg options (choices trait))"
  by (simp add: prepareTraitChoice_def Let_def)

lemma fulfilled_ALL:
  "trait_builderInfo trait = Some b \<Longrightarrow> bi_options b = Some options \<Longrightarrow>
   bi_mode b = Some ''ALL'' \<Longrightarrow>
   choicesFulfilled (prepareTraitChoice cfg trait) =
     (snd (run_options cfg options (choices trait)) = length options)"
  by (simp add: prepareTraitChoice_def Let_def builder_mode_def truthy_def js_str_def)

text \<open>
  C10. A slot created during a run never counts toward the made-count of that run: with
  the option keys distinct (they are the keys of one object), the made-count is the number
  of options that have candidate values and whose key finds a slot that was there before
  the run, with exactly \<open>amount\<close> chosen values. So under mode \<open>ALL\<close>, when an option with
  candidate values has no slot before the run, the run creates the slot with no chosen
  value and leaves the record unfulfilled.
\<close>

theorem made_count_only_prior_slots:
  assumes b: "trait_builderInfo trait = Some b"
    and opts: "bi_options b = Some options"
    and keys: "distinct (map fst options)"
  shows "snd (run_options cfg options (choices trait)) =
           length (filter (counted cfg (choices trait)) options)
       \<and> (\<forall>entry \<in> set options.
            bi_mode b = Some ''ALL'' \<and> option_values cfg (snd entry) \<noteq> None
              \<and> slot_size (choices trait) (fst entry) = None
            \<longrightarrow> slot_size (choices (prepareTraitChoice cfg trait)) (fst entry) = Some 0
                \<and> \<not> choicesFulfilled (prepareTraitChoice cfg trait))"
proof (intro conjI ballI impI)
  show n: "snd (run_options cfg options (choices trait)) =
      length (filter (counted cfg (choices trait)) options)"
    using keys by (rule run_options_count)
  fix entry
  assume e: "entry \<in> set options"
    and h: "bi_mode b = Some ''ALL'' \<and> option_values cfg (snd entry) \<noteq> None
      \<and> slot_size (choices trait) (fst entry) = None"
  from h have "\<not> counted cfg (choices trait) entry"
    by (simp add: counted_def split: option.splits)
  with e have "length (filter (counted cfg (choices trait)) options) < length options"
    by (rule length_filter_less)
  with n h show "\<not> choicesFulfilled (prepareTraitChoice cfg trait)"
    by (simp add: fulfilled_ALL[OF b opts])
  from keys e h show "slot_size (choices (prepareTraitChoice cfg trait)) (fst entry) = Some 0"
    by (simp add: choices_prepareTraitChoice[OF b opts] run_options_def fold_option_step_creates)
qed

lemma language_values:
  "option_values example_config language_option = Some [''common'', ''elvish'']"
  by (simp add: option_values_def language_option_def truthy_def js_str_def SYSTEM_lookup_def
      example_config_def)

lemma run_language_new:
  "run_options example_config [(''additionalLanguage'', language_option)] [] =
     ([language_slot []], 0)"
  by code_simp

lemma run_language_made:
  "run_options example_config [(''additionalLanguage'', language_option)]
      [language_slot [''elvish'']] = ([language_slot [''elvish'']], 1)"
  by code_simp

theorem made_count_only_prior_slots_witness:
  "snd (run_options example_config [(''additionalLanguage'', language_option)] []) = 0
   \<and> slot_size (choices (prepareTraitChoice example_config
         (example_choice (Some (language_builder (Some ''ALL''))) [] False)))
       ''additionalLanguage'' = Some 0
   \<and> \<not> choicesFulfilled (prepareTraitChoice example_config
         (example_choice (Some (language_builder (Some ''ALL''))) [] False))"
proof -
  let ?t = "example_choice (Some (language_builder (Some ''ALL''))) [] False"
  let ?opts = "[(''additionalLanguage'', language_option)]"
  have b: "trait_builderInfo ?t = Some (language_builder (Some ''ALL''))"
    by (simp add: example_choice_def)
  have o: "bi_options (language_builder (Some ''ALL'')) = Some ?opts"
    by (simp add: language_builder_def)
  have d: "distinct (map fst ?opts)" by simp
  have c: "choices ?t = []" by (simp add: example_choice_def)
  have m: "bi_mode (language_builder (Some ''ALL'')) = Some ''ALL''"
    by (simp add: language_builder_def)
  have s: "slot_size [] ''additionalLanguage'' = None" by (simp add: slot_size_def)
  from made_count_only_prior_slots[OF b o d, of example_config] c m s language_values
  show ?thesis by (simp add: counted_def)
qed

text \<open>
  C2 (the default mode). The docstring of \<open>prepareCharacterBuilderData\<close> says the default
  mode is \<open>ALL\<close>, but line 182 defaults an unspecified mode to the lower-case \<open>all\<close>,
  which no case of the \<open>switch\<close> matches. For the trait choice with one language option
  (amount 1), no mode, and a slot that already holds one chosen value, the made-count is 1
  and equals the number of options, the mode is set to \<open>all\<close>, and \<open>choicesFulfilled\<close>
  stays false.
\<close>

theorem default_mode_leaves_flag:
  "snd (run_options example_config [(''additionalLanguage'', language_option)]
          [language_slot [''elvish'']]) = 1
   \<and> length [(''additionalLanguage'', language_option)] = 1
   \<and> builder_mode (language_builder None) = ''all''
   \<and> \<not> choicesFulfilled (prepareTraitChoice example_config
         (example_choice (Some (language_builder None)) [language_slot [''elvish'']] False))"
  by (simp add: run_language_made prepareTraitChoice_def Let_def builder_mode_def truthy_def
      example_choice_def language_builder_def)

text \<open>The explicit modes \<open>ANY\<close> and \<open>CHOOSE_ONE\<close>, and a missing or empty mode.\<close>

lemma fulfilled_ANY:
  "trait_builderInfo trait = Some b \<Longrightarrow> bi_options b = Some options \<Longrightarrow>
   bi_mode b = Some ''ANY'' \<Longrightarrow>
   choicesFulfilled (prepareTraitChoice cfg trait) =
     (snd (run_options cfg options (choices trait)) > 0)"
  by (simp add: prepareTraitChoice_def Let_def builder_mode_def truthy_def js_str_def)

lemma fulfilled_CHOOSE_ONE:
  "trait_builderInfo trait = Some b \<Longrightarrow> bi_options b = Some options \<Longrightarrow>
   bi_mode b = Some ''CHOOSE_ONE'' \<Longrightarrow>
   choicesFulfilled (prepareTraitChoice cfg trait) =
     (snd (run_options cfg options (choices trait)) = 1)"
  by (simp add: prepareTraitChoice_def Let_def builder_mode_def truthy_def js_str_def)

lemma fulfilled_default:
  "trait_builderInfo trait = Some b \<Longrightarrow> bi_options b = Some options \<Longrightarrow>
   \<not> truthy (bi_mode b) \<Longrightarrow>
   choicesFulfilled (prepareTraitChoice cfg trait) = choicesFulfilled trait"
  by (simp add: prepareTraitChoice_def Let_def builder_mode_def)

text \<open>
  C6, as stated, fails for an options object that is present but empty: line 177 tests
  \<open>!trait.builderInfo?.options\<close>, and an empty object is truthy. Under mode \<open>ANY\<close> such
  a record is evaluated as unfulfilled.
\<close>

theorem empty_options_ANY_unfulfilled:
  "\<not> choicesFulfilled (prepareTraitChoice example_config
        (example_choice (Some (empty_builder (Some ''ANY''))) [] False))"
  by (simp add: prepareTraitChoice_def Let_def builder_mode_def truthy_def js_str_def
      example_choice_def empty_builder_def run_options_def)

text \<open>
  C6, amended. For every trait choice whose \<open>builderInfo\<close> is absent or whose
  \<open>builderInfo.options\<close> is absent, the evaluator sets \<open>choicesFulfilled\<close> to true. An
  options object that is present but empty is evaluated by the mode: fulfilled under
  \<open>ALL\<close> (0 of 0 made), unfulfilled under \<open>ANY\<close> and \<open>CHOOSE_ONE\<close>.
\<close>

theorem absent_options_fulfilled:
  "((case trait_builderInfo trait of None \<Rightarrow> True | Some b \<Rightarrow> bi_options b = None)
      \<longrightarrow> choicesFulfilled (prepareTraitChoice cfg trait))
   \<and> (trait_builderInfo trait = Some b \<and> bi_options b = Some [] \<longrightarrow>
        (bi_mode b = Some ''ALL'' \<longrightarrow> choicesFulfilled (prepareTraitChoice cfg trait))
      \<and> (bi_mode b = Some ''ANY'' \<or> bi_mode b = Some ''CHOOSE_ONE''
            \<longrightarrow> \<not> choicesFulfilled (prepareTraitChoice cfg trait)))"
  by (auto simp: prepareTraitChoice_def Let_def builder_mode_def truthy_def js_str_def
      run_options_def split: option.splits)

theorem absent_options_fulfilled_witness:
  "choicesFulfilled (prepareTraitChoice example_config (example_choice None [] False))
   \<and> choicesFulfilled (prepareTraitChoice example_config
        (example_choice (Some \<lparr>bi_mode = None, bi_options = None\<rparr>) [] False))
   \<and> choicesFulfilled (prepareTraitChoice example_config
        (example_choice (Some (empty_builder (Some ''ALL''))) [] False))
   \<and> \<not> choicesFulfilled (prepareTraitChoice example_config
        (example_choice (Some (empty_builder (Some ''CHOOSE_ONE''))) [] False))"
  using absent_options_fulfilled[where trait = "example_choice None [] False"
      and cfg = example_config]
    absent_options_fulfilled[where
      trait = "example_choice (Some \<lparr>bi_mode = None, bi_options = None\<rparr>) [] False"
      and cfg = example_config]
    absent_options_fulfilled[where
      trait = "example_choice (Some (empty_builder (Some ''ALL''))) [] False"
      and b = "empty_builder (Some ''ALL'')" and cfg = example_config]
    absent_options_fulfilled[where
      trait = "example_choice (Some (empty_builder (Some ''CHOOSE_ONE''))) [] False"
      and b = "empty_builder (Some ''CHOOSE_ONE'')" and cfg = example_config]
  by (simp add: example_choice_def empty_builder_def)

subsection \<open>Advantages\<close>

lemma Math_round_round: "Math_round x = round x"
  by (simp add: Math_round_def round_def)

lemma hex_is_word: "hex_value c = Some v \<Longrightarrow> is_word c"
  by (auto simp: hex_value_def is_word_def Let_def split: if_splits)

lemma hash_not_word: "\<not> is_word (CHR ''#'')"
  by (simp add: is_word_def)

lemma hex_not_x: "hex_value c = Some v \<Longrightarrow> c \<noteq> CHR ''x'' \<and> c \<noteq> CHR ''X''"
  by (auto simp: hex_value_def)

lemma parseInt16_pair:
  assumes a: "hex_value a = Some va" and b: "hex_value b = Some vb"
  shows "parseInt16 [a, b] = Some (16 * va + vb)"
proof -
  from hex_not_x[OF b] have "strip_0x [a, b] = [a, b]"
    by (simp add: strip_0x_def)
  with a b show ?thesis
    by (simp add: parseInt16_def List.map_filter_def)
qed

lemma match_ww_hex:
  assumes "hex_value r1 = Some R1" "hex_value r2 = Some R2" "hex_value g1 = Some G1"
    "hex_value g2 = Some G2" "hex_value b1 = Some B1" "hex_value b2 = Some B2"
  shows "match_ww (CHR ''#'' # [r1, r2, g1, g2, b1, b2]) = [[r1, r2], [g1, g2], [b1, b2]]"
  using assms by (simp add: hash_not_word hex_is_word)

lemma brightness_rgb:
  "brightness [Some r, Some g, Some b] =
     Some (round ((of_int r * 299 + of_int g * 587 + of_int b * 114) / (1000 :: real)))"
  by (simp add: brightness_def rgb_at_def Math_round_round)

lemma buildStyleString_hex:
  assumes color: "trait_color trait = Some (CHR ''#'' # [r1, r2, g1, g2, b1, b2])"
    and hex: "hex_value r1 = Some R1" "hex_value r2 = Some R2" "hex_value g1 = Some G1"
      "hex_value g2 = Some G2" "hex_value b1 = Some B1" "hex_value b2 = Some B2"
  shows "buildStyleString trait result =
     Inr (result\<lparr>adv_style := Some (contrast_style (CHR ''#'' # [r1, r2, g1, g2, b1, b2])
       (16 * R1 + R2) (16 * G1 + G2) (16 * B1 + B2))\<rparr>)"
proof -
  have t: "truthy (trait_color trait)" and c: "js_str (trait_color trait) = CHR ''#'' # [r1, r2, g1, g2, b1, b2]"
    using color by (simp_all add: truthy_def js_str_def)
  have rgb: "map parseInt16 [[r1, r2], [g1, g2], [b1, b2]] =
      [Some (16 * R1 + R2), Some (16 * G1 + G2), Some (16 * B1 + B2)]"
    using hex by (simp add: parseInt16_pair)
  show ?thesis
    unfolding buildStyleString_def Let_def
    by (simp only: t c if_True match_ww_hex[OF hex] list.case rgb brightness_rgb)
      (simp add: contrast_style_def font_color_def)
qed

text \<open>
  C9. For a trait whose color is \<open>#\<close> followed by six hexadecimal digits, with \<open>R\<close>,
  \<open>G\<close> and \<open>B\<close> the values of the three pairs, an innate-tier entry (made by
  \<open>mapInnate\<close>) and a choice-tier entry (pushed by \<open>reduceTraitChoice\<close>) carry the
  style that sets the background to that color and the foreground to black when
  \<open>round((R*299 + G*587 + B*114)/1000) > 125\<close> and to white otherwise. A manual-tier
  entry (made by \<open>mapManualData\<close>) carries no style.
\<close>

theorem style_of_hex_color:
  assumes color: "trait_color trait = Some (CHR ''#'' # [r1, r2, g1, g2, b1, b2])"
    and hex: "hex_value r1 = Some R1" "hex_value r2 = Some R2" "hex_value g1 = Some G1"
      "hex_value g2 = Some G2" "hex_value b1 = Some B1" "hex_value b2 = Some B2"
    and style: "style = contrast_style (CHR ''#'' # [r1, r2, g1, g2, b1, b2])
      (16 * R1 + R2) (16 * G1 + G2) (16 * B1 + B2)"
  shows "(map_of types v = Some label \<longrightarrow>
            mapInnate trait types v e =
              Inr (Some ((trait_entry trait ''innate'' v label (next_ref e))\<lparr>adv_style := Some style\<rparr>),
                   e\<lparr>next_ref := next_ref e + 1\<rparr>))
       \<and> (SYSTEM_lookup cfg category = Some types \<and> map_of types v = Some label \<longrightarrow>
            chosen_step cfg trait category v (advs, e) =
              Inr (advs @ [Some ((trait_entry trait ''choice'' v label (next_ref e))\<lparr>adv_style := Some style\<rparr>)],
                   e\<lparr>next_ref := next_ref e + 1\<rparr>))
       \<and> (case mapManualData types m e of
             Inl err \<Rightarrow> True
           | Inr r \<Rightarrow> map_option adv_style (fst r) = Some None)"
proof -
  note bs = buildStyleString_hex[OF color hex, folded style]
  show ?thesis
    by (simp add: mapInnate_def chosen_step_def bs mapManualData_def split: option.splits)
qed

lemma hex_F: "hex_value (CHR ''F'') = Some 15" by (simp add: hex_value_def)
lemma hex_0: "hex_value (CHR ''0'') = Some 0" by (simp add: hex_value_def)

lemma contrast_white: "contrast_style ''#FFFFFF'' 255 255 255 = ''background-color: #FFFFFF;color: black;''"
  by (simp add: contrast_style_def round_def)

lemma contrast_black: "contrast_style ''#000000'' 0 0 0 = ''background-color: #000000;color: white;''"
  by (simp add: contrast_style_def round_def)

theorem style_of_hex_color_witness:
  "mapInnate (polyglot (Some ''#FFFFFF'') example_innate) (PROFICIENCY_TYPES example_config)
       ''martial'' fresh_env =
     Inr (Some ((trait_entry (polyglot (Some ''#FFFFFF'') example_innate) ''innate'' ''martial''
                   ''Martial Weapons'' 0)
                \<lparr>adv_style := Some ''background-color: #FFFFFF;color: black;''\<rparr>),
          fresh_env\<lparr>next_ref := 1\<rparr>)
   \<and> chosen_step example_config (polyglot (Some ''#000000'') example_innate) ''LANGUAGE_TYPES''
       ''elvish'' ([], fresh_env) =
     Inr ([Some ((trait_entry (polyglot (Some ''#000000'') example_innate) ''choice'' ''elvish''
                   ''Elvish'' 0)
                \<lparr>adv_style := Some ''background-color: #000000;color: white;''\<rparr>)],
          fresh_env\<lparr>next_ref := 1\<rparr>)"
proof -
  have w: "trait_color (polyglot (Some ''#FFFFFF'') example_innate) =
      Some (CHR ''#'' # [CHR ''F'', CHR ''F'', CHR ''F'', CHR ''F'', CHR ''F'', CHR ''F''])"
    by (simp add: polyglot_def)
  have b: "trait_color (polyglot (Some ''#000000'') example_innate) =
      Some (CHR ''#'' # [CHR ''0'', CHR ''0'', CHR ''0'', CHR ''0'', CHR ''0'', CHR ''0''])"
    by (simp add: polyglot_def)
  have p: "map_of (PROFICIENCY_TYPES example_config) ''martial'' = Some ''Martial Weapons''"
    by (simp add: example_config_def)
  have l: "SYSTEM_lookup example_config ''LANGUAGE_TYPES'' = Some (LANGUAGE_TYPES example_config)
      \<and> map_of (LANGUAGE_TYPES example_config) ''elvish'' = Some ''Elvish''"
    by (simp add: SYSTEM_lookup_def example_config_def)
  have n: "next_ref fresh_env = 0" by (simp add: fresh_env_def)
  from style_of_hex_color[OF w hex_F hex_F hex_F hex_F hex_F hex_F refl,
      where types = "PROFICIENCY_TYPES example_config" and v = "''martial''"
        and label = "''Martial Weapons''" and e = fresh_env] p
  have 1: "mapInnate (polyglot (Some ''#FFFFFF'') example_innate) (PROFICIENCY_TYPES example_config)
       ''martial'' fresh_env =
     Inr (Some ((trait_entry (polyglot (Some ''#FFFFFF'') example_innate) ''innate'' ''martial''
                   ''Martial Weapons'' 0)
                \<lparr>adv_style := Some ''background-color: #FFFFFF;color: black;''\<rparr>),
          fresh_env\<lparr>next_ref := 1\<rparr>)"
    using contrast_white by (simp add: n)
  from style_of_hex_color[OF b hex_0 hex_0 hex_0 hex_0 hex_0 hex_0 refl,
      where types = "LANGUAGE_TYPES example_config" and v = "''elvish''"
        and label = "''Elvish''" and e = fresh_env and cfg = example_config
        and category = "''LANGUAGE_TYPES''" and advs = "[]"] l
  have 2: "chosen_step example_config (polyglot (Some ''#000000'') example_innate) ''LANGUAGE_TYPES''
       ''elvish'' ([], fresh_env) =
     Inr ([Some ((trait_entry (polyglot (Some ''#000000'') example_innate) ''choice'' ''elvish''
                   ''Elvish'' 0)
                \<lparr>adv_style := Some ''background-color: #000000;color: white;''\<rparr>)],
          fresh_env\<lparr>next_ref := 1\<rparr>)"
    using contrast_black by (simp add: n)
  from 1 2 show ?thesis by (rule conjI)
qed

text \<open>
  C1 (unknown innate keys). The trait \<open>Polyglot\<close> grants the innate proficiency
  \<open>bogus\<close>, which the catalog does not know. \<open>mapInnate\<close> logs the line and returns
  \<open>undefined\<close>, and line 291 adds every element of the mapped array to the set: the
  final set of proficiencies has one member, \<open>undefined\<close>. The choice tier, given the
  same unknown key as a chosen value, logs the line and adds nothing.
\<close>

theorem unknown_innate_adds_undefined:
  "prepareAdvantages code_units example_config
       [polyglot (Some ''#202020'') (example_innate\<lparr>innate_proficiencies := [''bogus'']\<rparr>)] []
       nothing_stored fresh_env =
     Inr \<lparr>sets = \<lparr>proficiencies = [None], resistances = [], languages = [],
                  saveAdvantages = []\<rparr>,
          environment = \<lparr>next_ref = 0,
                         log_lines = [''Unknown type bogus in Sailor (Polyglot)'']\<rparr>\<rparr>
   \<and> prepareAdvantages code_units example_config
       [] [example_choice None [language_slot [''bogus'']] True]
       nothing_stored fresh_env =
     Inr \<lparr>sets = \<lparr>proficiencies = [], resistances = [], languages = [],
                  saveAdvantages = []\<rparr>,
          environment = \<lparr>next_ref = 0,
                         log_lines = [''Unknown type bogus in Sailor (Polyglot)'']\<rparr>\<rparr>"
  by code_simp

text \<open>
  C5, as stated, fails: a trait choice with two slots of the category
  \<open>LANGUAGE_TYPES\<close> that both hold the chosen value \<open>elvish\<close> gives two entries with
  the same source, source type, value and label. Each is an object of its own, and a
  \<open>Set\<close> compares objects by identity, so the final set holds both.
\<close>

theorem identical_entries_remain:
  "(case prepareAdvantages code_units example_config []
           [example_choice None
              [language_slot [''elvish''],
               (language_slot [''elvish''])\<lparr>choice_key := ''second''\<rparr>] True]
           nothing_stored fresh_env of
      Inl err \<Rightarrow> []
    | Inr st \<Rightarrow> map (map_option structural) (languages (sets st)))
   = [Some (''Sailor (Polyglot)'', ''choice'', Key ''elvish'', ''Elvish''),
      Some (''Sailor (Polyglot)'', ''choice'', Key ''elvish'', ''Elvish'')]"
  by code_simp

lemma defined_append: "defined (xs @ ys) = defined xs @ defined ys"
  by (simp add: defined_def List.map_filter_def)

lemma defined_map_Some: "defined (map Some xs) = xs"
  by (induction xs) (simp_all add: defined_def List.map_filter_def)

lemma defined_only_None: "defined (filter (\<lambda>x. x = None) xs) = []"
  by (induction xs) (simp_all add: defined_def List.map_filter_def)

lemma sorted_drop_middle:
  "sorted (map k (xs @ ys @ zs)) \<Longrightarrow> sorted (map k (xs @ zs))"
  by (auto simp: sorted_append)

lemma sorted_defined_fold_Set_add:
  "sorted (map k (defined (s @ xs))) \<Longrightarrow>
   sorted (map k (defined (fold (Set_add ident) xs s)))"
proof (induction xs arbitrary: s)
  case Nil
  then show ?case by simp
next
  case (Cons x xs)
  show ?case
  proof (cases "ident x \<in> set (map ident s)")
    case True
    from Cons.prems have "sorted (map k (defined s @ defined [x] @ defined xs))"
      by (simp add: defined_append[symmetric])
    then have "sorted (map k (defined (s @ xs)))"
      unfolding defined_append by (rule sorted_drop_middle)
    with Cons.IH[of s] True show ?thesis by (simp add: Set_add_def)
  next
    case False
    with Cons.IH[of "s @ [x]"] Cons.prems show ?thesis by (simp add: Set_add_def)
  qed
qed

lemma sorted_Set_sorted:
  "sorted (map (\<lambda>a. collate (adv_label a)) (defined (sorted_Set collate xs)))"
proof -
  have "sorted (map (\<lambda>a. collate (adv_label a)) (defined ([] @ sort_by_label collate xs)))"
    by (simp add: sort_by_label_def defined_append defined_map_Some defined_only_None)
  then show ?thesis
    unfolding sorted_Set_def new_Set_def by (rule sorted_defined_fold_Set_add)
qed

lemma sorted_Set_distinct: "distinct (map adv_ident (sorted_Set collate xs))"
  by (simp add: sorted_Set_def new_Set_distinct)

lemma and_then_Inr: "and_then r f = Inr y \<Longrightarrow> \<exists>x. r = Inr x \<and> f x = Inr y"
  by (cases r) (simp_all add: and_then_def)

lemma prepareAdvantages_sorts:
  assumes "prepareAdvantages collate cfg ts tcs stored e = Inr st"
  shows "\<exists>st0. st = sort_sets collate st0"
proof -
  from assms obtain s1 where
    "and_then (fold_err (innate_tier cfg) ts s1) (\<lambda>st.
       and_then (fold_err (choice_tier cfg) tcs st) (\<lambda>st. Inr (sort_sets collate st))) = Inr st"
    unfolding prepareAdvantages_def by (blast dest: and_then_Inr)
  then obtain s2 where
    "and_then (fold_err (choice_tier cfg) tcs s2) (\<lambda>st. Inr (sort_sets collate st)) = Inr st"
    by (blast dest: and_then_Inr)
  then obtain s3 where "Inr (sort_sets collate s3) = (Inr st :: error + adv_state)"
    by (blast dest: and_then_Inr)
  then show ?thesis by auto
qed

text \<open>
  C5, amended. When \<open>prepareAdvantages\<close> returns, each of the four final sets holds no
  object twice, and its entries iterate in ascending order of label under the locale's
  comparison. Entries that are structurally identical but were created separately are
  all kept.
\<close>

theorem advantage_sets_sorted:
  assumes "prepareAdvantages collate cfg ts tcs stored e = Inr st"
  shows "label_ordered collate (proficiencies (sets st))
       \<and> label_ordered collate (resistances (sets st))
       \<and> label_ordered collate (languages (sets st))
       \<and> label_ordered collate (saveAdvantages (sets st))"
proof -
  from prepareAdvantages_sorts[OF assms] obtain st0 where "st = sort_sets collate st0" ..
  then show ?thesis
    by (simp add: sort_sets_def label_ordered_def sorted_Set_sorted sorted_Set_distinct)
qed

theorem advantage_sets_sorted_witness:
  "(case prepareAdvantages code_units example_config
           [polyglot (Some ''#FFFFFF'')
              (example_innate\<lparr>innate_proficiencies := [''simple'', ''martial'']\<rparr>)]
           [] nothing_stored fresh_env of
      Inl err \<Rightarrow> False
    | Inr st \<Rightarrow>
        map (map_option adv_label) (proficiencies (sets st)) =
          [Some ''Martial Weapons'', Some ''Simple Weapons'']
        \<and> label_ordered code_units (proficiencies (sets st))
        \<and> label_ordered code_units (languages (sets st)))"
proof -
  let ?r = "prepareAdvantages code_units example_config
           [polyglot (Some ''#FFFFFF'')
              (example_innate\<lparr>innate_proficiencies := [''simple'', ''martial'']\<rparr>)]
           [] nothing_stored fresh_env"
  have l: "(case ?r of Inl err \<Rightarrow> False
      | Inr st \<Rightarrow> map (map_option adv_label) (proficiencies (sets st)) =
          [Some ''Martial Weapons'', Some ''Simple Weapons''])"
    by code_simp
  then obtain st where st: "?r = Inr st"
    by (cases ?r) simp_all
  from advantage_sets_sorted[OF st] l show ?thesis
    by (simp add: st)
qed

end
